theory Spec2Isabelle
  imports Main
begin

section \<open>The job scheduler of \<open>src/classes/job-scheduler.ts\<close>\<close>

text \<open>
  The theory embeds \<open>JobScheduler.upsertJobScheduler\<close>, \<open>createNextJob\<close>,
  \<open>getSchedulerNextJobId\<close> and \<open>defaultRepeatStrategy\<close>.

  Conventions of the embedding:
  \<^item> JavaScript numbers are \<open>int\<close>: the scheduler handles millisecond timestamps, periods
    and counters, which are integers far inside the range where doubles and \<open>Date\<close> are
    exact; \<open>Math.floor (a / b)\<close> is then \<open>a div b\<close>, and \<open>new Date(x).getTime()\<close> is \<open>x\<close>.
    Dates (\<open>startDate\<close>, \<open>endDate\<close>) are given as epoch milliseconds.
  \<^item> An optional field is an \<open>option\<close>; \<open>None\<close> is \<open>undefined\<close>. The source tests most
    fields by truthiness, which the functions \<open>truthy_num\<close>, \<open>truthy_str\<close> and
    \<open>truthy_bool\<close> spell out: \<open>0\<close>, the empty string and \<open>false\<close> count as absent.
  \<^item> An exception is \<open>Inl\<close> of the result; the effects of a call (console warning, the
    \<open>multi\<close> object, the commands queued on it, whether \<open>exec\<close> ran) are fields of the
    value the model returns.
  \<^item> What the call reads from outside (the wall clock, the cron parser, the reply of the
    store, the tracing context) is a field of the environment \<open>env\<close>.
  \<^item> The connection is up: \<open>await this.client\<close> gives the client. The attributes set on
    the tracing span are not part of the model.
\<close>

subsection \<open>Values\<close>

datatype error = Error string | TypeError

definition truthy_num :: "int option \<Rightarrow> bool" where
  "truthy_num x = (case x of None \<Rightarrow> False | Some n \<Rightarrow> n \<noteq> 0)"

definition truthy_str :: "string option \<Rightarrow> bool" where
  "truthy_str x = (case x of None \<Rightarrow> False | Some s \<Rightarrow> s \<noteq> [])"

definition truthy_bool :: "bool option \<Rightarrow> bool" where
  "truthy_bool x = (case x of None \<Rightarrow> False | Some b \<Rightarrow> b)"

text \<open>The decimal text of an integer, as a template literal prints it.\<close>

definition digit_char :: "nat \<Rightarrow> char" where
  "digit_char d = ''0123456789'' ! d"

function nat_to_string :: "nat \<Rightarrow> string" where
  "nat_to_string n =
     (if n < 10 then [digit_char n] else nat_to_string (n div 10) @ [digit_char (n mod 10)])"
  by pat_completeness auto
termination
  by (relation "measure (\<lambda>n. n)") auto

declare nat_to_string.simps [simp del]

definition number_to_string :: "int \<Rightarrow> string" where
  "number_to_string n =
     (if n < 0 then CHR ''-'' # nat_to_string (nat (- n)) else nat_to_string (nat n))"

subsection \<open>Options and jobs\<close>

record repeat_options =
  every :: "int option"
  pattern :: "string option"
  offset :: "int option"
  immediately :: "bool option"
  startDate :: "int option"
  endDate :: "int option"
  limit :: "int option"
  count :: "int option"
  tz :: "string option"

text \<open>
  \<open>telemetry.metadata\<close> is a string on input; the source can also store \<open>false\<close> there
  (\<open>!omitContext && srcPropagationMedatada\<close>).
\<close>

datatype metadata_value = MetadataUndefined | MetadataFalse | MetadataString string

record telemetry_options =
  metadata :: metadata_value
  omitContext :: "bool option"

text \<open>
  \<open>JobSchedulerTemplateOptions\<close> is \<open>JobsOptions\<close> without some keys, so one record serves
  for the template the caller passes and for the merged options of the job; \<open>other\<close>
  holds the fields the scheduler copies without reading.
\<close>

record 'o jobs_options =
  prevMillis :: "int option"
  telemetry :: "telemetry_options option"
  repeat :: "repeat_options option"
  jobId :: "string option"
  delay :: "int option"
  timestamp :: "int option"
  repeatJobKey :: "string option"
  other :: 'o

text \<open>
  The class \<open>Job\<close> is outside the sources: a job is the arguments its constructor
  receives (name, data, options, id).
\<close>

record ('d, 'o) job =
  job_name :: string
  job_data :: "'d option"
  job_opts :: "'o jobs_options"
  job_id :: string

text \<open>The last argument of \<open>scripts.addJobScheduler\<close>.\<close>

record scheduler_template =
  template_name :: string
  template_endDate :: "int option"
  template_tz :: "string option"
  template_pattern :: "string option"
  template_every :: "int option"

text \<open>
  The commands a call queues on the \<open>multi\<close> object. \<open>scripts.addJobScheduler\<close>,
  \<open>scripts.updateJobSchedulerNextMillis\<close> and \<open>Job.addJob\<close> are outside the sources; a
  command records the call and its arguments. The data and the template options are
  carried as values: \<open>JSON.stringify\<close> and \<open>Job.optsAsJSON\<close> serialise them, and an
  \<open>undefined\<close> payload (\<open>None\<close>) is serialised as \<open>{}\<close>.
\<close>

datatype ('d, 'o) command =
    AddJobScheduler string int "'d option" "'o jobs_options" scheduler_template
  | UpdateJobSchedulerNextMillis string int
  | AddJob "('d, 'o) job"

text \<open>
  The result of \<open>parseExpression\<close> of the cron-parser package: the call throws (\<open>Inl\<close>),
  or gives an interval whose \<open>next().getTime()\<close> throws or is a time. The parser receives
  the pattern, the options and \<open>currentDate\<close>.
\<close>

type_synonym cron_interval = "error + int"
type_synonym cron_parser = "string option \<Rightarrow> repeat_options \<Rightarrow> int \<Rightarrow> error + cron_interval"
type_synonym repeat_strategy = "int \<Rightarrow> repeat_options \<Rightarrow> string \<Rightarrow> error + int option"

record ('d, 'o) env =
  now_upsert :: int
  now_strategy :: int
  now_create :: int
  parseExpression :: cron_parser
  settings_repeatStrategy :: "repeat_strategy option"
  srcPropagationMetadata :: "string option"
  exec_reply :: "('d, 'o) command list \<Rightarrow> (string option \<times> string) list"

text \<open>
  \<open>now_upsert\<close> is \<open>Date.now()\<close> of line 78, \<open>now_strategy\<close> is \<open>new Date().getTime()\<close> of
  line 369, \<open>now_create\<close> is \<open>Date.now()\<close> of line 218. \<open>exec_reply\<close> is what \<open>multi.exec()\<close>
  resolves to for the queued commands: pairs of an error (\<open>None\<close> is \<open>null\<close>) and a result.
\<close>

record ('d, 'o) run =
  outcome :: "error + ('d, 'o) job option"
  warned :: "string list"
  multi_created :: bool
  queued :: "('d, 'o) command list"
  executed :: bool

subsection \<open>\<open>getSchedulerNextJobId\<close> (lines 344-352) and \<open>createNextJob\<close> (lines 201-236)\<close>

definition getSchedulerNextJobId :: "int \<Rightarrow> string \<Rightarrow> string" where
  "getSchedulerNextJobId nextMillis jobSchedulerId =
     ''repeat:'' @ jobSchedulerId @ '':'' @ number_to_string nextMillis"

definition empty_repeat :: repeat_options where
  "empty_repeat = \<lparr>every = None, pattern = None, offset = None, immediately = None,
     startDate = None, endDate = None, limit = None, count = None, tz = None\<rparr>"

text \<open>
  \<open>createNextJob\<close> reads the clock (first argument), builds the job and queues its
  insertion on the client it is given; it returns the job and the client.
\<close>

definition createNextJob ::
  "int \<Rightarrow> ('d, 'o) command list \<Rightarrow> string \<Rightarrow> int \<Rightarrow> string \<Rightarrow> 'o jobs_options \<Rightarrow>
   'd option \<Rightarrow> int \<Rightarrow> ('d, 'o) job \<times> ('d, 'o) command list" where
  "createNextJob now client name nextMillis jobSchedulerId opts data currentCount =
     (let jobId' = getSchedulerNextJobId nextMillis jobSchedulerId;
          delay' = nextMillis - now;
          mergedOpts = opts
            \<lparr>jobId := Some jobId',
             delay := Some (if delay' < 0 then 0 else delay'),
             timestamp := Some now,
             prevMillis := Some nextMillis,
             repeatJobKey := Some jobSchedulerId\<rparr>;
          mergedOpts = mergedOpts
            \<lparr>repeat := Some ((case repeat opts of None \<Rightarrow> empty_repeat | Some r \<Rightarrow> r)
               \<lparr>count := Some currentCount\<rparr>)\<rparr>;
          job = \<lparr>job_name = name, job_data = data, job_opts = mergedOpts, job_id = jobId'\<rparr>
      in (job, client @ [AddJob job]))"

subsection \<open>\<open>defaultRepeatStrategy\<close> (lines 355-376) and the constructor (lines 30-31)\<close>

text \<open>
  \<open>parseExpression\<close> is called before the \<open>try\<close> block, so what it throws leaves the
  function; what \<open>interval.next()\<close> throws is caught and the function falls off its end.
  The second argument is the clock read by \<open>new Date().getTime()\<close>.
\<close>

definition defaultRepeatStrategy ::
  "cron_parser \<Rightarrow> int \<Rightarrow> int \<Rightarrow> repeat_options \<Rightarrow> error + int option" where
  "defaultRepeatStrategy parse clock millis opts =
     (case parse (pattern opts) opts millis of
        Inl e \<Rightarrow> Inl e
      | Inr interval \<Rightarrow>
          if truthy_bool (immediately opts) then Inr (Some clock)
          else (case interval of Inl e \<Rightarrow> Inr None | Inr t \<Rightarrow> Inr (Some t)))"

definition repeatStrategy :: "('d, 'o) env \<Rightarrow> repeat_strategy" where
  "repeatStrategy env =
     (case settings_repeatStrategy env of
        Some s \<Rightarrow> s
      | None \<Rightarrow> (\<lambda>millis opts jobName.
          defaultRepeatStrategy (parseExpression env) (now_strategy env) millis opts))"

subsection \<open>\<open>upsertJobScheduler\<close> (lines 34-199)\<close>

text \<open>Lines 44-60: the three checks that throw; \<open>None\<close> when they pass.\<close>

definition validate :: "repeat_options \<Rightarrow> error option" where
  "validate repeatOpts =
     (if truthy_str (pattern repeatOpts) \<and> truthy_num (every repeatOpts) then
        Some (Error ''Both .pattern and .every options are defined for this repeatable job'')
      else if \<not> truthy_str (pattern repeatOpts) \<and> \<not> truthy_num (every repeatOpts) then
        Some (Error ''Either .pattern or .every options must be defined for this repeatable job'')
      else if truthy_bool (immediately repeatOpts) \<and> truthy_num (startDate repeatOpts) then
        Some (Error ''Both .immediately and .startDate options are defined for this repeatable job'')
      else None)"

text \<open>Lines 62-66: the warning.\<close>

definition immediately_warning :: "repeat_options \<Rightarrow> string list" where
  "immediately_warning repeatOpts =
     (if truthy_bool (immediately repeatOpts) \<and> truthy_num (every repeatOpts) then
        [''Using option immediately with every does not affect the job's schedule. Job will run immediately anyway.'']
      else [])"

text \<open>Line 69: \<open>repeatOpts.count ? repeatOpts.count + 1 : 1\<close>.\<close>

definition iterationCount :: "repeat_options \<Rightarrow> int" where
  "iterationCount repeatOpts =
     (case count repeatOpts of None \<Rightarrow> 1 | Some c \<Rightarrow> if c \<noteq> 0 then c + 1 else 1)"

text \<open>Lines 70-73: the limit test.\<close>

definition limit_reached :: "repeat_options \<Rightarrow> bool" where
  "limit_reached repeatOpts =
     (case limit repeatOpts of None \<Rightarrow> False | Some l \<Rightarrow> iterationCount repeatOpts > l)"

text \<open>
  Line 80: \<open>typeof endDate === undefined\<close> compares a string with \<open>undefined\<close> and is
  false, so the test is \<open>now > new Date(endDate).getTime()\<close>; for an absent \<open>endDate\<close>
  the time is \<open>NaN\<close> and the comparison is false.
\<close>

definition endDate_passed :: "int \<Rightarrow> repeat_options \<Rightarrow> bool" where
  "endDate_passed now repeatOpts =
     (case endDate repeatOpts of None \<Rightarrow> False | Some e \<Rightarrow> now > e)"

text \<open>Line 91: \<open>opts.prevMillis || 0\<close>.\<close>

definition prevMillis_or_0 :: "'o jobs_options \<Rightarrow> int" where
  "prevMillis_or_0 opts = (case prevMillis opts of None \<Rightarrow> 0 | Some p \<Rightarrow> p)"

text \<open>Lines 84-92: \<open>now\<close> after the start date and the previous fire.\<close>

definition aligned_now :: "int \<Rightarrow> repeat_options \<Rightarrow> 'o jobs_options \<Rightarrow> int" where
  "aligned_now now0 repeatOpts opts =
     (let now = (case startDate repeatOpts of
                   None \<Rightarrow> now0
                 | Some startMillis \<Rightarrow>
                     if startMillis \<noteq> 0 then (if startMillis > now0 then startMillis else now0)
                     else now0);
          prevMillis' = prevMillis_or_0 opts
      in if prevMillis' < now then now else prevMillis')"

text \<open>
  Lines 94-114: \<open>nextMillis\<close> and \<open>newOffset\<close>. After \<open>validate\<close> one of the two branches
  is taken; \<open>nextMillis\<close> stays \<open>undefined\<close> otherwise. A strategy that throws ends the call.
\<close>

definition next_millis ::
  "repeat_strategy \<Rightarrow> int \<Rightarrow> int \<Rightarrow> repeat_options \<Rightarrow> string \<Rightarrow>
   error + (int option \<times> int option)" where
  "next_millis strategy now prevMillis' repeatOpts jobName =
     (if truthy_num (every repeatOpts) then
        (let every' = the (every repeatOpts);
             nextSlot = (now div every') * every' + every';
             (nextMillis, newOffset) =
               (if prevMillis' \<noteq> 0 \<or> truthy_num (offset repeatOpts) then
                  (nextSlot + (if truthy_num (offset repeatOpts) then the (offset repeatOpts) else 0),
                   offset repeatOpts)
                else
                  (let newOffset = every' - (nextSlot - now)
                   in (now, Some (if newOffset < 0 then 0 else newOffset))));
             nextMillis = (if nextMillis < now then now else nextMillis)
         in Inr (Some nextMillis, newOffset))
      else if truthy_str (pattern repeatOpts) then
        (case strategy now repeatOpts jobName of
           Inl e \<Rightarrow> Inl e
         | Inr nextMillis \<Rightarrow> Inr (nextMillis, offset repeatOpts))
      else Inr (None, offset repeatOpts))"

text \<open>
  Lines 146-160, inside the callback of \<open>this.trace\<close>. \<open>QueueBase.trace\<close> is outside the
  sources: it runs the callback with a span and the propagation metadata of the tracing
  context, and returns what the callback returns.
\<close>

definition trace_telemetry ::
  "telemetry_options option \<Rightarrow> string option \<Rightarrow> telemetry_options option" where
  "trace_telemetry tel src =
     (if truthy_str src then
        (let omit = (case tel of None \<Rightarrow> None | Some t \<Rightarrow> omitContext t);
             own = (case tel of None \<Rightarrow> MetadataUndefined | Some t \<Rightarrow> metadata t);
             telemetryMetadata =
               (if (case own of MetadataString s \<Rightarrow> s \<noteq> [] | _ \<Rightarrow> False) then own
                else if truthy_bool omit then MetadataFalse
                else MetadataString (the src))
         in if (case telemetryMetadata of MetadataString s \<Rightarrow> s \<noteq> [] | _ \<Rightarrow> False)
               \<or> truthy_bool omit
            then Some \<lparr>metadata = telemetryMetadata, omitContext = omit\<rparr>
            else tel)
      else tel)"

text \<open>Lines 116-198: the transaction, for a \<open>nextMillis\<close> that is a number.\<close>

definition commit ::
  "('d, 'o) env \<Rightarrow> string list \<Rightarrow> string \<Rightarrow> repeat_options \<Rightarrow> string \<Rightarrow> 'd option \<Rightarrow>
   'o jobs_options \<Rightarrow> bool \<Rightarrow> int \<Rightarrow> int option \<Rightarrow> ('d, 'o) run" where
  "commit env w jobSchedulerId repeatOpts jobName jobData opts override nextMillis newOffset =
     (let multi =
            (if override then
               [AddJobScheduler jobSchedulerId nextMillis jobData opts
                  \<lparr>template_name = jobName,
                   template_endDate =
                     (if truthy_num (endDate repeatOpts) then endDate repeatOpts else None),
                   template_tz = tz repeatOpts,
                   template_pattern = pattern repeatOpts,
                   template_every = every repeatOpts\<rparr>]
             else [UpdateJobSchedulerNextMillis jobSchedulerId nextMillis]);
          telemetry' = trace_telemetry (telemetry opts) (srcPropagationMetadata env);
          (job, multi) =
            createNextJob (now_create env) multi jobName nextMillis jobSchedulerId
              (opts\<lparr>repeat := Some (repeatOpts
                        \<lparr>startDate := None, immediately := None, offset := newOffset\<rparr>),
                    telemetry := telemetry'\<rparr>)
              jobData (iterationCount repeatOpts);
          results = exec_reply env multi
      in case find (\<lambda>result. fst result \<noteq> None) results of
           Some erroredResult \<Rightarrow>
             \<lparr>outcome = Inl (Error (''Error upserting job scheduler '' @ jobSchedulerId
                  @ '' - '' @ the (fst erroredResult))),
              warned = w, multi_created = True, queued = multi, executed = True\<rparr>
         | None \<Rightarrow>
             (if results = [] then
                \<lparr>outcome = Inl TypeError,
                 warned = w, multi_created = True, queued = multi, executed = True\<rparr>
              else
                \<lparr>outcome = Inr (Some (job\<lparr>job_id := snd (last results)\<rparr>)),
                 warned = w, multi_created = True, queued = multi, executed = True\<rparr>))"

definition upsertJobScheduler ::
  "('d, 'o) env \<Rightarrow> string \<Rightarrow> repeat_options \<Rightarrow> string \<Rightarrow> 'd option \<Rightarrow> 'o jobs_options \<Rightarrow>
   bool \<Rightarrow> ('d, 'o) run" where
  "upsertJobScheduler env jobSchedulerId repeatOpts jobName jobData opts override =
     (case validate repeatOpts of
        Some e \<Rightarrow>
          \<lparr>outcome = Inl e, warned = [], multi_created = False, queued = [], executed = False\<rparr>
      | None \<Rightarrow>
          (let w = immediately_warning repeatOpts in
           if limit_reached repeatOpts then
             \<lparr>outcome = Inr None, warned = w, multi_created = False, queued = [],
              executed = False\<rparr>
           else if endDate_passed (now_upsert env) repeatOpts then
             \<lparr>outcome = Inr None, warned = w, multi_created = False, queued = [],
              executed = False\<rparr>
           else
             (let now = aligned_now (now_upsert env) repeatOpts opts in
              case next_millis (repeatStrategy env) now (prevMillis_or_0 opts) repeatOpts jobName of
                Inl e \<Rightarrow>
                  \<lparr>outcome = Inl e, warned = w, multi_created = False, queued = [],
                   executed = False\<rparr>
              | Inr (nextMillis, newOffset) \<Rightarrow>
                  (if truthy_num nextMillis then
                     commit env w jobSchedulerId repeatOpts jobName jobData opts override
                       (the nextMillis) newOffset
                   else
                     \<lparr>outcome = Inr None, warned = w, multi_created = True, queued = [],
                      executed = False\<rparr>))))"

text \<open>
  The job \<open>commit\<close> passes to \<open>createNextJob\<close> (lines 162-174), before the store
  names it.
\<close>

definition built_job ::
  "('d, 'o) env \<Rightarrow> string \<Rightarrow> repeat_options \<Rightarrow> string \<Rightarrow> 'd option \<Rightarrow> 'o jobs_options \<Rightarrow>
   int \<Rightarrow> int option \<Rightarrow> ('d, 'o) job" where
  "built_job env i r name data opts n off =
     fst (createNextJob (now_create env) [] name n i
        (opts\<lparr>repeat := Some (r\<lparr>startDate := None, immediately := None, offset := off\<rparr>),
              telemetry := trace_telemetry (telemetry opts) (srcPropagationMetadata env)\<rparr>)
        data (iterationCount r))"

subsection \<open>The store's reply\<close>

text \<open>
  Modelled from the spec: the reply of the store to a transaction in which no
  sub-operation fails. \<open>multi.exec\<close> and the scripts behind the queued commands are outside
  the sources; by section 4.5 of the specification the transaction returns one
  \<open>(error, result)\<close> pair per command and the enqueuer returns the assigned job id. The
  results of the two scheduler scripts are not read by the code and are left empty.
\<close>

definition committed_reply :: "('d, 'o) command list \<Rightarrow> (string option \<times> string) list" where
  "committed_reply cmds =
     map (\<lambda>c. case c of AddJob j \<Rightarrow> (None, job_id j) | _ \<Rightarrow> (None, [])) cmds"

text \<open>The fire time a queued command carries.\<close>

fun scheduled_fire :: "('d, 'o) command \<Rightarrow> int option" where
  "scheduled_fire (AddJobScheduler _ n _ _ _) = Some n"
| "scheduled_fire (UpdateJobSchedulerNextMillis _ n) = Some n"
| "scheduled_fire (AddJob j) = prevMillis (job_opts j)"

text \<open>The jobs a list of commands enqueues.\<close>

fun enqueued :: "('d, 'o) command list \<Rightarrow> ('d, 'o) job list" where
  "enqueued [] = []"
| "enqueued (AddJob j # cs) = j # enqueued cs"
| "enqueued (_ # cs) = enqueued cs"

text \<open>The offset a list of commands publishes into the stored repeat options.\<close>

definition published_offsets :: "('d, 'o) command list \<Rightarrow> int option list" where
  "published_offsets cmds =
     map (\<lambda>j. case repeat (job_opts j) of None \<Rightarrow> None | Some rp \<Rightarrow> offset rp) (enqueued cmds)"

subsection \<open>Concrete inputs\<close>

text \<open>The template options \<open>{}\<close>.\<close>

definition no_opts :: "unit jobs_options" where
  "no_opts = \<lparr>prevMillis = None, telemetry = None, repeat = None, jobId = None,
     delay = None, timestamp = None, repeatJobKey = None, other = ()\<rparr>"

text \<open>
  Three behaviours of the cron parser: the next occurrence is \<open>t\<close>; the expression parses
  and \<open>next()\<close> throws; the expression does not parse.
\<close>

definition parser_next :: "int \<Rightarrow> cron_parser" where
  "parser_next t = (\<lambda>p opts currentDate. Inr (Inr t))"

definition parser_exhausted :: cron_parser where
  "parser_exhausted = (\<lambda>p opts currentDate. Inr (Inl (Error ''Out of the timespan range'')))"

definition parser_invalid :: cron_parser where
  "parser_invalid = (\<lambda>p opts currentDate. Inl (Error ''Invalid cron expression''))"

text \<open>A strategy that always answers \<open>x\<close>.\<close>

definition constant_strategy :: "int option \<Rightarrow> repeat_strategy" where
  "constant_strategy x = (\<lambda>millis opts jobName. Inr x)"

text \<open>
  A scheduler with the default strategy over the parser \<open>parse\<close>, at a moment when every
  reading of the clock is \<open>t\<close>, no tracing context is active and the store commits.
\<close>

definition world :: "int \<Rightarrow> cron_parser \<Rightarrow> (string, unit) env" where
  "world t parse = \<lparr>now_upsert = t, now_strategy = t, now_create = t,
     parseExpression = parse, settings_repeatStrategy = None,
     srcPropagationMetadata = None, exec_reply = committed_reply\<rparr>"

text \<open>
  Scenario 1 of the specification: the first upsert of an interval scheduler, at
  \<open>now = 1000\<close>.
\<close>

definition first_upsert :: "(string, unit) run" where
  "first_upsert =
     upsertJobScheduler (world 1000 parser_invalid) ''s1''
       (empty_repeat\<lparr>every := Some 1000\<rparr>) ''j'' (Some ''{x:1}'') no_opts True"

text \<open>Scenario 2: the second upsert, at \<open>now = 1500\<close>, after a fire at \<open>1000\<close>.\<close>

definition second_upsert :: "(string, unit) run" where
  "second_upsert =
     upsertJobScheduler (world 1500 parser_invalid) ''s1''
       (empty_repeat\<lparr>every := Some 1000, offset := Some 1000\<rparr>) ''j''
       (Some ''{x:1}'') (no_opts\<lparr>prevMillis := Some 1000\<rparr>) False"

text \<open>An upsert at \<open>now = 1500\<close> whose options carry the offset \<open>0\<close> and no previous fire.\<close>

definition offset_zero_upsert :: "(string, unit) run" where
  "offset_zero_upsert =
     upsertJobScheduler (world 1500 parser_invalid) ''s1''
       (empty_repeat\<lparr>every := Some 1000, offset := Some 0\<rparr>) ''j''
       (Some ''{x:1}'') no_opts False"

text \<open>Scenario 4: two iterations emitted, limit two.\<close>

definition limit_upsert :: "(string, unit) run" where
  "limit_upsert =
     upsertJobScheduler (world 2500 parser_invalid) ''s3''
       (empty_repeat\<lparr>every := Some 1000, limit := Some 2, count := Some 2\<rparr>) ''j''
       (Some ''{x:1}'') (no_opts\<lparr>prevMillis := Some 2000\<rparr>) False"

text \<open>An upsert at \<open>now = 1000\<close> of a scheduler whose end date is \<open>500\<close>.\<close>

definition ended_upsert :: "(string, unit) run" where
  "ended_upsert =
     upsertJobScheduler (world 1000 parser_invalid) ''s1''
       (empty_repeat\<lparr>every := Some 1000, endDate := Some 500\<rparr>) ''j''
       (Some ''{x:1}'') no_opts True"

text \<open>
  Scenario 5: a pattern with \<open>immediately\<close>, at \<open>now = 1000\<close>; and the same upsert for a
  template whose previous fire, \<open>5000\<close>, is ahead of the clock.
\<close>

definition immediately_opts :: repeat_options where
  "immediately_opts = empty_repeat\<lparr>pattern := Some ''* * * * *'', immediately := Some True\<rparr>"

definition immediately_upsert :: "(string, unit) run" where
  "immediately_upsert =
     upsertJobScheduler (world 1000 (parser_next 60000)) ''s4'' immediately_opts ''j''
       (Some ''{x:1}'') no_opts True"

definition ahead_upsert :: "(string, unit) run" where
  "ahead_upsert =
     upsertJobScheduler (world 1000 (parser_next 60000)) ''s4'' immediately_opts ''j''
       (Some ''{x:1}'') (no_opts\<lparr>prevMillis := Some 5000\<rparr>) False"

text \<open>The upsert of scenario 5 with, in addition, the start date \<open>0\<close>, the epoch.\<close>

definition epoch_start_upsert :: "(string, unit) run" where
  "epoch_start_upsert =
     upsertJobScheduler (world 1000 (parser_next 60000)) ''s4''
       (immediately_opts\<lparr>startDate := Some 0\<rparr>) ''j'' (Some ''{x:1}'') no_opts True"

text \<open>Scenario 3, in small numbers: the parser answers \<open>60000\<close> at \<open>now = 1000\<close>.\<close>

definition pattern_opts :: repeat_options where
  "pattern_opts = empty_repeat\<lparr>pattern := Some ''* * * * *''\<rparr>"

definition pattern_upsert :: "(string, unit) run" where
  "pattern_upsert =
     upsertJobScheduler (world 1000 (parser_next 60000)) ''s2'' pattern_opts ''j''
       (Some ''{x:1}'') no_opts True"

text \<open>A pattern the parser rejects, and a pattern with no occurrence left.\<close>

definition invalid_pattern_upsert :: "(string, unit) run" where
  "invalid_pattern_upsert =
     upsertJobScheduler (world 1000 parser_invalid) ''s2''
       (empty_repeat\<lparr>pattern := Some ''every minute''\<rparr>) ''j'' (Some ''{x:1}'') no_opts True"

definition exhausted_upsert :: "(string, unit) run" where
  "exhausted_upsert =
     upsertJobScheduler (world 1000 parser_exhausted) ''s2'' pattern_opts ''j''
       (Some ''{x:1}'') no_opts True"

text \<open>A scheduler configured with a strategy that answers \<open>0\<close>.\<close>

definition zero_upsert :: "(string, unit) run" where
  "zero_upsert =
     upsertJobScheduler
       ((world 1000 parser_invalid)\<lparr>settings_repeatStrategy := Some (constant_strategy (Some 0))\<rparr>)
       ''s2'' pattern_opts ''j'' (Some ''{x:1}'') no_opts True"

section \<open>Properties\<close>

subsection \<open>Auxiliary lemmas\<close>

lemmas truthy_defs = truthy_num_def truthy_str_def truthy_bool_def

lemma iterationCount_spec:
  "iterationCount r = (case count r of None \<Rightarrow> 0 | Some c \<Rightarrow> c) + 1"
  by (simp add: iterationCount_def split: option.split)

lemma upsert_invalid:
  "validate r = Some e \<Longrightarrow>
   upsertJobScheduler env i r name data opts ov =
     \<lparr>outcome = Inl e, warned = [], multi_created = False, queued = [], executed = False\<rparr>"
  by (simp add: upsertJobScheduler_def)

lemma upsert_reaches_strategy:
  assumes "validate r = None" "\<not> limit_reached r" "\<not> endDate_passed (now_upsert env) r"
  shows "upsertJobScheduler env i r name data opts ov =
     (case next_millis (repeatStrategy env) (aligned_now (now_upsert env) r opts)
             (prevMillis_or_0 opts) r name of
        Inl e \<Rightarrow>
          \<lparr>outcome = Inl e, warned = immediately_warning r, multi_created = False,
           queued = [], executed = False\<rparr>
      | Inr (nextMillis, newOffset) \<Rightarrow>
          if truthy_num nextMillis then
            commit env (immediately_warning r) i r name data opts ov (the nextMillis) newOffset
          else
            \<lparr>outcome = Inr None, warned = immediately_warning r, multi_created = True,
             queued = [], executed = False\<rparr>)"
  using assms by (simp add: upsertJobScheduler_def Let_def)

lemma createNextJob_opts:
  "job_opts (fst (createNextJob now client name n i opts data c)) =
     opts\<lparr>jobId := Some (''repeat:'' @ i @ '':'' @ number_to_string n),
          delay := Some (max 0 (n - now)),
          timestamp := Some now,
          prevMillis := Some n,
          repeatJobKey := Some i,
          repeat := Some ((case repeat opts of None \<Rightarrow> empty_repeat | Some r \<Rightarrow> r)
               \<lparr>count := Some c\<rparr>)\<rparr>"
  by (simp add: createNextJob_def getSchedulerNextJobId_def Let_def max_def)

lemma built_job_opts:
  "job_opts (built_job env i r name data opts n off) =
     opts\<lparr>jobId := Some (''repeat:'' @ i @ '':'' @ number_to_string n),
          delay := Some (max 0 (n - now_create env)),
          timestamp := Some (now_create env),
          prevMillis := Some n,
          repeatJobKey := Some i,
          telemetry := trace_telemetry (telemetry opts) (srcPropagationMetadata env),
          repeat := Some (r\<lparr>startDate := None, immediately := None, offset := off,
                            count := Some (iterationCount r)\<rparr>)\<rparr>"
  by (simp add: built_job_def createNextJob_opts)

lemma queued_commit:
  "queued (commit env w i r name data opts ov n off) =
     [if ov then
        AddJobScheduler i n data opts
          \<lparr>template_name = name,
           template_endDate = (if truthy_num (endDate r) then endDate r else None),
           template_tz = tz r,
           template_pattern = pattern r,
           template_every = every r\<rparr>
      else UpdateJobSchedulerNextMillis i n,
      AddJob (built_job env i r name data opts n off)]"
  by (simp add: commit_def built_job_def createNextJob_def Let_def
      split: option.split prod.split)

lemma fires_commit:
  "map scheduled_fire (queued (commit env w i r name data opts ov n off)) = [Some n, Some n]"
  by (simp add: queued_commit built_job_opts)

lemma enqueued_commit:
  "enqueued (queued (commit env w i r name data opts ov n off)) =
     [built_job env i r name data opts n off]"
  by (simp add: queued_commit)

lemma warned_commit: "warned (commit env w i r name data opts ov n off) = w"
  by (simp add: commit_def Let_def split: option.split prod.split)

lemma outcome_commit:
  "outcome (commit env w i r name data opts ov n off) = Inr (Some j) \<Longrightarrow>
     \<exists>s. j = (built_job env i r name data opts n off)\<lparr>job_id := s\<rparr>"
  by (auto simp add: commit_def built_job_def createNextJob_def Let_def
      split: option.splits prod.splits if_splits)

lemma outcome_commit_not_validation:
  "outcome (commit env w i r name data opts ov n off) \<notin>
     {Inl (Error ''Both .pattern and .every options are defined for this repeatable job''),
      Inl (Error ''Either .pattern or .every options must be defined for this repeatable job''),
      Inl (Error ''Both .immediately and .startDate options are defined for this repeatable job'')}"
  by (simp add: commit_def Let_def split: option.split prod.split)

lemma upsert_written:
  assumes "queued (upsertJobScheduler env i r name data opts ov) \<noteq> []"
  shows "\<exists>n off. upsertJobScheduler env i r name data opts ov =
            commit env (immediately_warning r) i r name data opts ov n off
          \<and> next_millis (repeatStrategy env) (aligned_now (now_upsert env) r opts)
               (prevMillis_or_0 opts) r name = Inr (Some n, off)
          \<and> n \<noteq> 0 \<and> validate r = None \<and> \<not> limit_reached r
          \<and> \<not> endDate_passed (now_upsert env) r"
  using assms
  by (auto simp add: upsertJobScheduler_def Let_def truthy_num_def
      split: option.splits if_splits sum.splits prod.splits)

lemma upsert_no_job_without_writing:
  assumes "outcome (upsertJobScheduler env i r name data opts ov) = Inr (Some j)"
  shows "queued (upsertJobScheduler env i r name data opts ov) \<noteq> []"
  using assms
  by (auto simp add: upsertJobScheduler_def Let_def queued_commit
      split: option.splits if_splits sum.splits prod.splits)

lemma next_millis_every:
  assumes "truthy_num (every r)"
  shows "\<exists>n off. next_millis s now prev r name = Inr (Some n, off) \<and> now \<le> n"
  using assms by (simp add: next_millis_def Let_def split: prod.split)

lemma upsert_every_outcome:
  assumes "validate r = None" "truthy_num (every r)"
  shows "outcome (upsertJobScheduler env i r name data opts ov) = Inr None
           \<and> warned (upsertJobScheduler env i r name data opts ov) = immediately_warning r
       \<or> (\<exists>n off. upsertJobScheduler env i r name data opts ov =
            commit env (immediately_warning r) i r name data opts ov n off)"
proof -
  obtain n off where
    "next_millis (repeatStrategy env) (aligned_now (now_upsert env) r opts)
       (prevMillis_or_0 opts) r name = Inr (Some n, off)"
    using next_millis_every [OF assms(2)] by blast
  then show ?thesis
    using assms(1) by (auto simp add: upsertJobScheduler_def Let_def)
qed

lemmas option_defs = empty_repeat_def no_opts_def world_def immediately_opts_def
  pattern_opts_def parser_next_def parser_exhausted_def parser_invalid_def
  constant_strategy_def

lemmas phase_defs = validate_def limit_reached_def endDate_passed_def aligned_now_def
  prevMillis_or_0_def next_millis_def immediately_warning_def iterationCount_def
  repeatStrategy_def defaultRepeatStrategy_def

lemma second_upsert_commit:
  "second_upsert = commit (world 1500 parser_invalid) [] ''s1''
       (empty_repeat\<lparr>every := Some 1000, offset := Some 1000\<rparr>) ''j''
       (Some ''{x:1}'') (no_opts\<lparr>prevMillis := Some 1000\<rparr>) False 3000 (Some 1000)"
  unfolding second_upsert_def
  by (simp add: upsertJobScheduler_def option_defs phase_defs truthy_defs Let_def)

lemma aligned_now_ge_clock: "now0 \<le> aligned_now now0 r opts"
  by (simp add: aligned_now_def Let_def split: option.split)

lemma aligned_now_ge_prev: "prevMillis_or_0 opts \<le> aligned_now now0 r opts"
  by (simp add: aligned_now_def Let_def split: option.split)

lemma aligned_now_ge_start:
  "startDate r = Some s \<Longrightarrow> s \<noteq> 0 \<or> 0 \<le> now0 \<Longrightarrow> s \<le> aligned_now now0 r opts"
  by (auto simp add: aligned_now_def Let_def)

lemma aligned_now_no_start:
  "\<not> truthy_num (startDate r) \<Longrightarrow> aligned_now now0 r opts = max now0 (prevMillis_or_0 opts)"
  by (auto simp add: aligned_now_def Let_def truthy_num_def split: option.splits)

lemma next_millis_first:
  assumes "every r = Some e" "e \<noteq> 0" "prev = 0" "\<not> truthy_num (offset r)"
  shows "next_millis s now prev r name =
     Inr (Some now, Some (max 0 (e - ((now div e) * e + e - now))))"
  using assms by (simp add: next_millis_def Let_def truthy_num_def max_def)

lemma next_millis_subsequent:
  assumes "every r = Some e" "e \<noteq> 0" "prev \<noteq> 0 \<or> truthy_num (offset r)"
  shows "next_millis s now prev r name =
     Inr (Some (max now ((now div e) * e + e + (case offset r of None \<Rightarrow> 0 | Some x \<Rightarrow> x))),
          offset r)"
  using assms
  by (auto simp add: next_millis_def Let_def truthy_num_def max_def split: option.splits)

lemma first_offset_is_phase:
  fixes now e :: int
  assumes "0 < e"
  shows "e - ((now div e) * e + e - now) = now mod e"
proof -
  have "now = (now div e) * e + now mod e" by simp
  then show ?thesis by linarith
qed

lemma published_commit:
  "published_offsets (queued (commit env w i r name data opts ov n off)) = [off]"
  by (simp add: published_offsets_def enqueued_commit built_job_opts)

lemma outcome_commit_committed:
  assumes "exec_reply env = committed_reply"
  shows "outcome (commit env w i r name data opts ov n off) =
           Inr (Some (built_job env i r name data opts n off))"
  using assms
  by (simp add: commit_def built_job_def createNextJob_def committed_reply_def Let_def)

lemma built_job_id:
  "job_id (built_job env i r name data opts n off) = ''repeat:'' @ i @ '':'' @ number_to_string n"
  by (simp add: built_job_def createNextJob_def getSchedulerNextJobId_def Let_def)

lemma first_upsert_commit:
  "first_upsert = commit (world 1000 parser_invalid) [] ''s1''
       (empty_repeat\<lparr>every := Some 1000\<rparr>) ''j'' (Some ''{x:1}'') no_opts True 1000 (Some 0)"
  unfolding first_upsert_def
  by (simp add: upsertJobScheduler_def option_defs phase_defs truthy_defs Let_def)

lemma s1000: "number_to_string 1000 = ''1000''"
  by (simp add: number_to_string_def nat_to_string.simps digit_char_def)

lemma offset_zero_upsert_commit:
  "offset_zero_upsert = commit (world 1500 parser_invalid) [] ''s1''
       (empty_repeat\<lparr>every := Some 1000, offset := Some 0\<rparr>) ''j''
       (Some ''{x:1}'') no_opts False 1500 (Some 500)"
  unfolding offset_zero_upsert_def
  by (simp add: upsertJobScheduler_def option_defs phase_defs truthy_defs Let_def)

lemma s3000: "number_to_string 3000 = ''3000''"
  by (simp add: number_to_string_def nat_to_string.simps digit_char_def)

lemma validate_None_one:
  "validate r = None \<Longrightarrow> truthy_str (pattern r) \<noteq> truthy_num (every r)"
  by (auto simp add: validate_def split: if_splits)

lemma validate_None_immediately:
  "validate r = None \<Longrightarrow> truthy_bool (immediately r) \<Longrightarrow> \<not> truthy_num (startDate r)"
  by (auto simp add: validate_def split: if_splits)

lemma next_millis_pattern:
  assumes "\<not> truthy_num (every r)" "truthy_str (pattern r)"
  shows "next_millis s now prev r name =
     (case s now r name of Inl e \<Rightarrow> Inl e | Inr nm \<Rightarrow> Inr (nm, offset r))"
  using assms by (simp add: next_millis_def)

lemma upsert_pattern:
  assumes "validate r = None" "\<not> limit_reached r" "\<not> endDate_passed (now_upsert env) r"
    and "truthy_str (pattern r)"
  shows "upsertJobScheduler env i r name data opts ov =
     (case repeatStrategy env (aligned_now (now_upsert env) r opts) r name of
        Inl e \<Rightarrow>
          \<lparr>outcome = Inl e, warned = [], multi_created = False, queued = [],
           executed = False\<rparr>
      | Inr nextMillis \<Rightarrow>
          if truthy_num nextMillis then
            commit env [] i r name data opts ov (the nextMillis) (offset r)
          else
            \<lparr>outcome = Inr None, warned = [], multi_created = True, queued = [],
             executed = False\<rparr>)"
proof -
  have e: "\<not> truthy_num (every r)"
    using validate_None_one [OF assms(1)] assms(4) by simp
  then have w: "immediately_warning r = []"
    by (simp add: immediately_warning_def)
  show ?thesis
    using assms(1-3)
    by (simp add: upsert_reaches_strategy next_millis_pattern [OF e assms(4)] w
        split: sum.split)
qed

lemma default_strategy:
  "settings_repeatStrategy env = None \<Longrightarrow>
   repeatStrategy env millis r name =
     defaultRepeatStrategy (parseExpression env) (now_strategy env) millis r"
  by (simp add: repeatStrategy_def)

lemma pattern_upsert_fires:
  "map scheduled_fire (queued pattern_upsert) = [Some 60000, Some 60000]"
  unfolding pattern_upsert_def
  by (simp add: upsert_pattern default_strategy defaultRepeatStrategy_def fires_commit
      option_defs validate_def limit_reached_def endDate_passed_def truthy_defs)

lemma immediately_upsert_fires:
  "map scheduled_fire (queued immediately_upsert) = [Some 1000, Some 1000]"
  unfolding immediately_upsert_def
  by (simp add: upsert_pattern default_strategy defaultRepeatStrategy_def fires_commit
      option_defs validate_def limit_reached_def endDate_passed_def truthy_defs)

lemma commit_settings:
  "commit (env\<lparr>settings_repeatStrategy := s\<rparr>) w i r name data opts ov n off
     = commit env w i r name data opts ov n off"
  by (simp add: commit_def)

lemma next_millis_every_any:
  "truthy_num (every r) \<Longrightarrow> next_millis s now prev r name = next_millis s' now prev r name"
  by (simp add: next_millis_def)

lemma next_millis_constant:
  "\<not> truthy_num (every r) \<Longrightarrow>
   next_millis (constant_strategy x) now prev r name =
     Inr (if truthy_str (pattern r) then x else None, offset r)"
  by (simp add: next_millis_def constant_strategy_def)

lemma upsert_constant_falsy:
  assumes "x = None \<or> x = Some 0"
  shows "upsertJobScheduler (env\<lparr>settings_repeatStrategy := Some (constant_strategy x)\<rparr>)
       i r name data opts ov
     = upsertJobScheduler (env\<lparr>settings_repeatStrategy := Some (constant_strategy None)\<rparr>)
       i r name data opts ov"
proof (cases "truthy_num (every r)")
  case True
  have "next_millis (repeatStrategy (env\<lparr>settings_repeatStrategy := Some (constant_strategy x)\<rparr>))
          now prev r name
      = next_millis (repeatStrategy (env\<lparr>settings_repeatStrategy := Some (constant_strategy None)\<rparr>))
          now prev r name" for now prev
    by (rule next_millis_every_any [OF True])
  then show ?thesis
    by (simp add: upsertJobScheduler_def commit_settings Let_def
        split: option.split sum.split prod.split)
next
  case False
  then show ?thesis
    using assms
    by (auto simp add: upsertJobScheduler_def repeatStrategy_def next_millis_constant
        truthy_num_def Let_def split: option.split)
qed

lemma phases_without_immediately:
  "limit_reached (r\<lparr>immediately := x\<rparr>) = limit_reached r"
  "endDate_passed now0 (r\<lparr>immediately := x\<rparr>) = endDate_passed now0 r"
  "aligned_now now0 (r\<lparr>immediately := x\<rparr>) opts = aligned_now now0 r opts"
  by (simp_all add: limit_reached_def iterationCount_def endDate_passed_def aligned_now_def
      split: option.split)

lemma next_millis_without_immediately:
  "truthy_num (every r) \<Longrightarrow>
   next_millis s now prev (r\<lparr>immediately := x\<rparr>) name = next_millis s now prev r name"
  by (simp add: next_millis_def Let_def)

lemma commit_without_immediately:
  "commit env w i (r\<lparr>immediately := x\<rparr>) name data opts ov n off
     = commit env w i r name data opts ov n off"
  by (simp add: commit_def iterationCount_def)

lemma commit_warned:
  "(commit env w i r name data opts ov n off)\<lparr>warned := w'\<rparr>
     = commit env w' i r name data opts ov n off"
  by (simp add: commit_def Let_def split: option.split prod.split)

lemma upsert_immediately_every:
  assumes "truthy_bool (immediately r)" "truthy_num (every r)" "\<not> truthy_str (pattern r)"
    "\<not> truthy_num (startDate r)"
  shows "upsertJobScheduler env i r name data opts ov =
     (upsertJobScheduler env i (r\<lparr>immediately := None\<rparr>) name data opts ov)
       \<lparr>warned := [''Using option immediately with every does not affect the job's schedule. Job will run immediately anyway.'']\<rparr>"
proof -
  have v: "validate r = None" "validate (r\<lparr>immediately := None\<rparr>) = None"
    using assms by (simp_all add: validate_def truthy_bool_def)
  have w: "immediately_warning r = [''Using option immediately with every does not affect the job's schedule. Job will run immediately anyway.'']"
    "immediately_warning (r\<lparr>immediately := None\<rparr>) = []"
    using assms by (simp_all add: immediately_warning_def truthy_bool_def)
  show ?thesis
    using assms(2)
    by (simp add: upsertJobScheduler_def v w phases_without_immediately
        next_millis_without_immediately commit_without_immediately commit_warned Let_def
        split: sum.split prod.split)
qed

lemma epoch_start_upsert_commit:
  "epoch_start_upsert =
     commit (world 1000 (parser_next 60000)) [] ''s4''
       (immediately_opts\<lparr>startDate := Some 0\<rparr>) ''j'' (Some ''{x:1}'') no_opts True 1000 None"
  unfolding epoch_start_upsert_def
  by (simp add: upsert_pattern default_strategy defaultRepeatStrategy_def
      option_defs validate_def limit_reached_def endDate_passed_def truthy_defs)

subsection \<open>Validation\<close>

text \<open>
  Claim C8, as stated, fails for a start date at the epoch: lines 56-60 test \<open>startDate\<close>
  by truthiness, so with \<open>immediately\<close> and \<open>startDate = 0\<close> both set no error is raised, and
  the upsert writes the next fire and returns the job.
\<close>

theorem epoch_startDate_counterexample:
  "immediately (immediately_opts\<lparr>startDate := Some 0\<rparr>) = Some True
   \<and> startDate (immediately_opts\<lparr>startDate := Some 0\<rparr>) = Some 0
   \<and> map scheduled_fire (queued epoch_start_upsert) = [Some 1000, Some 1000]
   \<and> outcome epoch_start_upsert =
       Inr (Some (built_job (world 1000 (parser_next 60000)) ''s4''
          (immediately_opts\<lparr>startDate := Some 0\<rparr>) ''j'' (Some ''{x:1}'') no_opts 1000 None))"
  unfolding epoch_start_upsert_commit
  by (simp add: fires_commit outcome_commit_committed option_defs)

text \<open>
  Claim C8, amended. A field counts as set when the source's test of it succeeds: a
  pattern that is not empty, an \<open>every\<close> and a \<open>startDate\<close> other than \<open>0\<close>, an \<open>immediately\<close>
  that is true. \<open>upsertJobScheduler\<close> throws before any contact with the store (no \<open>multi\<close>
  object, nothing queued, nothing executed) when both \<open>pattern\<close> and \<open>every\<close> are set, when
  neither is set, and when both \<open>immediately\<close> and \<open>startDate\<close> are set. \<open>immediately\<close>
  together with \<open>every\<close> only logs the warning and the call proceeds: the run is the run
  of the same call without \<open>immediately\<close>, but for the warning, and its outcome is none of
  the validation errors.
\<close>

theorem validation_errors:
  "(truthy_str (pattern r) \<and> truthy_num (every r) \<longrightarrow>
      upsertJobScheduler env i r name data opts ov =
        \<lparr>outcome = Inl (Error
           ''Both .pattern and .every options are defined for this repeatable job''),
         warned = [], multi_created = False, queued = [], executed = False\<rparr>)
   \<and> (\<not> truthy_str (pattern r) \<and> \<not> truthy_num (every r) \<longrightarrow>
      upsertJobScheduler env i r name data opts ov =
        \<lparr>outcome = Inl (Error
           ''Either .pattern or .every options must be defined for this repeatable job''),
         warned = [], multi_created = False, queued = [], executed = False\<rparr>)
   \<and> (truthy_bool (immediately r) \<and> truthy_num (startDate r) \<longrightarrow>
      (\<exists>msg. upsertJobScheduler env i r name data opts ov =
        \<lparr>outcome = Inl (Error msg), warned = [], multi_created = False, queued = [],
         executed = False\<rparr>))
   \<and> (truthy_bool (immediately r) \<and> truthy_num (startDate r)
        \<and> truthy_str (pattern r) \<noteq> truthy_num (every r) \<longrightarrow>
      upsertJobScheduler env i r name data opts ov =
        \<lparr>outcome = Inl (Error
           ''Both .immediately and .startDate options are defined for this repeatable job''),
         warned = [], multi_created = False, queued = [], executed = False\<rparr>)
   \<and> (truthy_bool (immediately r) \<and> truthy_num (every r) \<and> \<not> truthy_str (pattern r)
        \<and> \<not> truthy_num (startDate r) \<longrightarrow>
      upsertJobScheduler env i r name data opts ov =
          (upsertJobScheduler env i (r\<lparr>immediately := None\<rparr>) name data opts ov)
            \<lparr>warned := [''Using option immediately with every does not affect the job's schedule. Job will run immediately anyway.'']\<rparr>
      \<and> warned (upsertJobScheduler env i r name data opts ov) =
          [''Using option immediately with every does not affect the job's schedule. Job will run immediately anyway.'']
      \<and> outcome (upsertJobScheduler env i r name data opts ov) \<notin>
          {Inl (Error ''Both .pattern and .every options are defined for this repeatable job''),
           Inl (Error ''Either .pattern or .every options must be defined for this repeatable job''),
           Inl (Error ''Both .immediately and .startDate options are defined for this repeatable job'')})"
proof (intro conjI impI)
  assume "truthy_str (pattern r) \<and> truthy_num (every r)"
  then show "upsertJobScheduler env i r name data opts ov =
        \<lparr>outcome = Inl (Error
           ''Both .pattern and .every options are defined for this repeatable job''),
         warned = [], multi_created = False, queued = [], executed = False\<rparr>"
    by (simp add: upsert_invalid validate_def)
next
  assume "\<not> truthy_str (pattern r) \<and> \<not> truthy_num (every r)"
  then show "upsertJobScheduler env i r name data opts ov =
        \<lparr>outcome = Inl (Error
           ''Either .pattern or .every options must be defined for this repeatable job''),
         warned = [], multi_created = False, queued = [], executed = False\<rparr>"
    by (simp add: upsert_invalid validate_def)
next
  assume "truthy_bool (immediately r) \<and> truthy_num (startDate r)"
  then have "\<exists>msg. validate r = Some (Error msg)"
    by (simp add: validate_def)
  then obtain msg where "validate r = Some (Error msg)" ..
  then show "\<exists>msg. upsertJobScheduler env i r name data opts ov =
        \<lparr>outcome = Inl (Error msg), warned = [], multi_created = False, queued = [],
         executed = False\<rparr>"
    by (auto simp add: upsert_invalid)
next
  assume "truthy_bool (immediately r) \<and> truthy_num (startDate r)
        \<and> truthy_str (pattern r) \<noteq> truthy_num (every r)"
  then show "upsertJobScheduler env i r name data opts ov =
        \<lparr>outcome = Inl (Error
           ''Both .immediately and .startDate options are defined for this repeatable job''),
         warned = [], multi_created = False, queued = [], executed = False\<rparr>"
    by (auto simp add: upsert_invalid validate_def)
next
  assume a: "truthy_bool (immediately r) \<and> truthy_num (every r) \<and> \<not> truthy_str (pattern r)
        \<and> \<not> truthy_num (startDate r)"
  then have v: "validate r = None" by (simp add: validate_def)
  have w: "immediately_warning r =
     [''Using option immediately with every does not affect the job's schedule. Job will run immediately anyway.'']"
    using a by (simp add: immediately_warning_def)
  from a have e: "truthy_num (every r)" by simp
  from upsert_every_outcome [OF v e, of env i name data opts ov]
  consider "outcome (upsertJobScheduler env i r name data opts ov) = Inr None"
      "warned (upsertJobScheduler env i r name data opts ov) = immediately_warning r"
    | n off where "upsertJobScheduler env i r name data opts ov =
          commit env (immediately_warning r) i r name data opts ov n off"
    by auto
  then have both: "warned (upsertJobScheduler env i r name data opts ov) =
          [''Using option immediately with every does not affect the job's schedule. Job will run immediately anyway.'']
      \<and> outcome (upsertJobScheduler env i r name data opts ov) \<notin>
          {Inl (Error ''Both .pattern and .every options are defined for this repeatable job''),
           Inl (Error ''Either .pattern or .every options must be defined for this repeatable job''),
           Inl (Error ''Both .immediately and .startDate options are defined for this repeatable job'')}"
  proof cases
    case 1
    then show ?thesis using w by simp
  next
    case 2
    then show ?thesis
      using w by (simp only: outcome_commit_not_validation warned_commit not_False_eq_True)
  qed
  from a show "upsertJobScheduler env i r name data opts ov =
          (upsertJobScheduler env i (r\<lparr>immediately := None\<rparr>) name data opts ov)
            \<lparr>warned := [''Using option immediately with every does not affect the job's schedule. Job will run immediately anyway.'']\<rparr>"
    by (intro upsert_immediately_every) simp_all
  from both show "warned (upsertJobScheduler env i r name data opts ov) =
          [''Using option immediately with every does not affect the job's schedule. Job will run immediately anyway.'']"
    by (rule conjunct1)
  from both show "outcome (upsertJobScheduler env i r name data opts ov) \<notin>
          {Inl (Error ''Both .pattern and .every options are defined for this repeatable job''),
           Inl (Error ''Either .pattern or .every options must be defined for this repeatable job''),
           Inl (Error ''Both .immediately and .startDate options are defined for this repeatable job'')}"
    by (rule conjunct2)
qed

theorem validation_errors_witness:
  "truthy_str (pattern (empty_repeat\<lparr>pattern := Some ''* * * * *'', every := Some 1000\<rparr>))
   \<and> truthy_num (every (empty_repeat\<lparr>pattern := Some ''* * * * *'', every := Some 1000\<rparr>))
   \<and> outcome (upsertJobScheduler (world 1000 (parser_next 60000)) ''s1''
        (empty_repeat\<lparr>pattern := Some ''* * * * *'', every := Some 1000\<rparr>) ''j''
        (Some ''{x:1}'') no_opts True) =
       Inl (Error ''Both .pattern and .every options are defined for this repeatable job'')
   \<and> \<not> truthy_str (pattern empty_repeat) \<and> \<not> truthy_num (every empty_repeat)
   \<and> outcome (upsertJobScheduler (world 1000 (parser_next 60000)) ''s1''
        empty_repeat ''j'' (Some ''{x:1}'') no_opts True) =
       Inl (Error ''Either .pattern or .every options must be defined for this repeatable job'')
   \<and> truthy_bool (immediately (immediately_opts\<lparr>startDate := Some 5000\<rparr>))
   \<and> truthy_num (startDate (immediately_opts\<lparr>startDate := Some 5000\<rparr>))
   \<and> outcome (upsertJobScheduler (world 1000 (parser_next 60000)) ''s1''
        (immediately_opts\<lparr>startDate := Some 5000\<rparr>) ''j'' (Some ''{x:1}'') no_opts True) =
       Inl (Error ''Both .immediately and .startDate options are defined for this repeatable job'')
   \<and> truthy_bool (immediately (empty_repeat\<lparr>every := Some 1000, immediately := Some True\<rparr>))
   \<and> truthy_num (every (empty_repeat\<lparr>every := Some 1000, immediately := Some True\<rparr>))
   \<and> \<not> truthy_str (pattern (empty_repeat\<lparr>every := Some 1000, immediately := Some True\<rparr>))
   \<and> \<not> truthy_num (startDate (empty_repeat\<lparr>every := Some 1000, immediately := Some True\<rparr>))
   \<and> upsertJobScheduler (world 1000 (parser_next 60000)) ''s1''
        (empty_repeat\<lparr>every := Some 1000, immediately := Some True\<rparr>)
        ''j'' (Some ''{x:1}'') no_opts True =
       (upsertJobScheduler (world 1000 (parser_next 60000)) ''s1''
        (empty_repeat\<lparr>every := Some 1000, immediately := None\<rparr>)
        ''j'' (Some ''{x:1}'') no_opts True)
         \<lparr>warned := [''Using option immediately with every does not affect the job's schedule. Job will run immediately anyway.'']\<rparr>
   \<and> warned (upsertJobScheduler (world 1000 (parser_next 60000)) ''s1''
        (empty_repeat\<lparr>every := Some 1000, immediately := Some True\<rparr>)
        ''j'' (Some ''{x:1}'') no_opts True) =
       [''Using option immediately with every does not affect the job's schedule. Job will run immediately anyway.'']"
  using
    validation_errors [where r = "empty_repeat\<lparr>pattern := Some ''* * * * *'', every := Some 1000\<rparr>"
      and env = "world 1000 (parser_next 60000)" and i = "''s1''" and name = "''j''"
      and data = "Some ''{x:1}''" and opts = no_opts and ov = True]
    validation_errors [where r = empty_repeat
      and env = "world 1000 (parser_next 60000)" and i = "''s1''" and name = "''j''"
      and data = "Some ''{x:1}''" and opts = no_opts and ov = True]
    validation_errors [where r = "immediately_opts\<lparr>startDate := Some 5000\<rparr>"
      and env = "world 1000 (parser_next 60000)" and i = "''s1''" and name = "''j''"
      and data = "Some ''{x:1}''" and opts = no_opts and ov = True]
    validation_errors [where r = "empty_repeat\<lparr>every := Some 1000, immediately := Some True\<rparr>"
      and env = "world 1000 (parser_next 60000)" and i = "''s1''" and name = "''j''"
      and data = "Some ''{x:1}''" and opts = no_opts and ov = True]
  by (simp add: empty_repeat_def immediately_opts_def truthy_defs)

subsection \<open>Horizons\<close>

text \<open>
  Claim C7. When \<open>limit\<close> is set and the iteration count, \<open>count\<close> (0 when absent) plus
  one, exceeds it, the call contacts the store in no way and returns no job; for options
  that pass the validation it returns empty. So the upsert after \<open>limit\<close> iterations does
  nothing.
\<close>

theorem limit_is_respected:
  assumes "limit r = Some l"
    and "(case count r of None \<Rightarrow> 0 | Some c \<Rightarrow> c) + 1 > l"
  shows "\<not> multi_created (upsertJobScheduler env i r name data opts ov)
     \<and> queued (upsertJobScheduler env i r name data opts ov) = []
     \<and> \<not> executed (upsertJobScheduler env i r name data opts ov)
     \<and> (\<forall>j. outcome (upsertJobScheduler env i r name data opts ov) \<noteq> Inr (Some j))
     \<and> (validate r = None \<longrightarrow>
          outcome (upsertJobScheduler env i r name data opts ov) = Inr None)"
proof -
  have "limit_reached r"
    using assms by (simp add: limit_reached_def iterationCount_spec)
  then show ?thesis
    by (cases "validate r") (simp_all add: upsertJobScheduler_def)
qed

theorem limit_is_respected_witness:
  "limit (empty_repeat\<lparr>every := Some 1000, limit := Some 2, count := Some 2\<rparr>) = Some 2
   \<and> (case count (empty_repeat\<lparr>every := Some 1000, limit := Some 2, count := Some 2\<rparr>) of
         None \<Rightarrow> 0 | Some c \<Rightarrow> c) + 1 > (2::int)
   \<and> validate (empty_repeat\<lparr>every := Some 1000, limit := Some 2, count := Some 2\<rparr>) = None
   \<and> \<not> multi_created limit_upsert \<and> queued limit_upsert = [] \<and> \<not> executed limit_upsert
   \<and> outcome limit_upsert = Inr None"
  unfolding limit_upsert_def
  using limit_is_respected
    [where r = "empty_repeat\<lparr>every := Some 1000, limit := Some 2, count := Some 2\<rparr>"
      and l = 2 and env = "world 2500 parser_invalid" and i = "''s3''" and name = "''j''"
      and data = "Some ''{x:1}''" and opts = "no_opts\<lparr>prevMillis := Some 2000\<rparr>"
      and ov = False]
  by (simp add: empty_repeat_def validate_def truthy_defs)

text \<open>
  Claim C2. When the options carry an \<open>endDate\<close> and the clock is past it, the call
  contacts the store in no way and returns no job; for options that pass the validation
  it returns empty.
\<close>

theorem endDate_is_respected:
  assumes "endDate r = Some e" and "now_upsert env > e"
  shows "\<not> multi_created (upsertJobScheduler env i r name data opts ov)
     \<and> queued (upsertJobScheduler env i r name data opts ov) = []
     \<and> \<not> executed (upsertJobScheduler env i r name data opts ov)
     \<and> (\<forall>j. outcome (upsertJobScheduler env i r name data opts ov) \<noteq> Inr (Some j))
     \<and> (validate r = None \<longrightarrow>
          outcome (upsertJobScheduler env i r name data opts ov) = Inr None)"
proof -
  have "endDate_passed (now_upsert env) r"
    using assms by (simp add: endDate_passed_def)
  then show ?thesis
    by (cases "validate r") (simp_all add: upsertJobScheduler_def Let_def)
qed

theorem endDate_is_respected_witness:
  "endDate (empty_repeat\<lparr>every := Some 1000, endDate := Some 500\<rparr>) = Some 500
   \<and> now_upsert (world 1000 parser_invalid) > 500
   \<and> validate (empty_repeat\<lparr>every := Some 1000, endDate := Some 500\<rparr>) = None
   \<and> \<not> multi_created ended_upsert \<and> queued ended_upsert = [] \<and> \<not> executed ended_upsert
   \<and> outcome ended_upsert = Inr None"
  unfolding ended_upsert_def
  using endDate_is_respected
    [where r = "empty_repeat\<lparr>every := Some 1000, endDate := Some 500\<rparr>"
      and e = 500 and env = "world 1000 parser_invalid" and i = "''s1''" and name = "''j''"
      and data = "Some ''{x:1}''" and opts = no_opts and ov = True]
  by (simp add: empty_repeat_def validate_def truthy_defs world_def)

subsection \<open>The next instance\<close>

text \<open>
  Claim C9. Every job an upsert enqueues, and the job it returns, has in its options
  \<open>jobId = "repeat:" + schedulerId + ":" + nextFireMs\<close>, \<open>delay = max(0, nextFireMs - now)\<close>,
  \<open>timestamp = now\<close>, \<open>prevMillis = nextFireMs\<close>, \<open>repeatJobKey = schedulerId\<close> and
  \<open>repeat.count\<close> the iteration count, \<open>count\<close> (0 when absent) plus one; \<open>nextFireMs\<close> is
  the time the scheduler command of the same transaction carries and \<open>now\<close> is the clock
  \<open>createNextJob\<close> reads.
\<close>

theorem next_instance_record:
  assumes "j \<in> set (enqueued (queued (upsertJobScheduler env i r name data opts ov)))
           \<or> outcome (upsertJobScheduler env i r name data opts ov) = Inr (Some j)"
  shows "\<exists>n rp. map scheduled_fire (queued (upsertJobScheduler env i r name data opts ov))
                 = [Some n, Some n]
     \<and> jobId (job_opts j) = Some (''repeat:'' @ i @ '':'' @ number_to_string n)
     \<and> delay (job_opts j) = Some (max 0 (n - now_create env))
     \<and> timestamp (job_opts j) = Some (now_create env)
     \<and> prevMillis (job_opts j) = Some n
     \<and> repeatJobKey (job_opts j) = Some i
     \<and> repeat (job_opts j) = Some rp
     \<and> count rp = Some ((case count r of None \<Rightarrow> 0 | Some c \<Rightarrow> c) + 1)"
proof -
  have "queued (upsertJobScheduler env i r name data opts ov) \<noteq> []"
    using assms upsert_no_job_without_writing by fastforce
  then obtain n off where
    u: "upsertJobScheduler env i r name data opts ov =
          commit env (immediately_warning r) i r name data opts ov n off"
    using upsert_written by blast
  have "job_opts j = job_opts (built_job env i r name data opts n off)"
    using assms unfolding u
    by (auto simp add: enqueued_commit dest: outcome_commit)
  then show ?thesis
    unfolding u
    by (simp add: fires_commit built_job_opts iterationCount_spec)
qed

theorem next_instance_record_witness:
  "hd (enqueued (queued second_upsert)) \<in> set (enqueued (queued second_upsert))
   \<and> map scheduled_fire (queued second_upsert) = [Some 3000, Some 3000]
   \<and> jobId (job_opts (hd (enqueued (queued second_upsert)))) = Some ''repeat:s1:3000''
   \<and> delay (job_opts (hd (enqueued (queued second_upsert)))) = Some 1500
   \<and> timestamp (job_opts (hd (enqueued (queued second_upsert)))) = Some 1500
   \<and> prevMillis (job_opts (hd (enqueued (queued second_upsert)))) = Some 3000
   \<and> repeatJobKey (job_opts (hd (enqueued (queued second_upsert)))) = Some ''s1''
   \<and> map_option count (repeat (job_opts (hd (enqueued (queued second_upsert))))) = Some (Some 1)"
proof -
  have h: "hd (enqueued (queued second_upsert)) \<in> set (enqueued (queued second_upsert))"
    by (simp add: second_upsert_commit enqueued_commit)
  have f: "map scheduled_fire (queued second_upsert) = [Some 3000, Some 3000]"
    by (simp add: second_upsert_commit fires_commit)
  have s: "number_to_string 3000 = ''3000''"
    by (simp add: number_to_string_def nat_to_string.simps digit_char_def)
  from next_instance_record [OF disjI1 [OF h [unfolded second_upsert_def]],
      folded second_upsert_def]
  obtain n rp where
    "map scheduled_fire (queued second_upsert) = [Some n, Some n]
     \<and> jobId (job_opts (hd (enqueued (queued second_upsert))))
         = Some (''repeat:'' @ ''s1'' @ '':'' @ number_to_string n)
     \<and> delay (job_opts (hd (enqueued (queued second_upsert))))
         = Some (max 0 (n - now_create (world 1500 parser_invalid)))
     \<and> timestamp (job_opts (hd (enqueued (queued second_upsert))))
         = Some (now_create (world 1500 parser_invalid))
     \<and> prevMillis (job_opts (hd (enqueued (queued second_upsert)))) = Some n
     \<and> repeatJobKey (job_opts (hd (enqueued (queued second_upsert)))) = Some ''s1''
     \<and> repeat (job_opts (hd (enqueued (queued second_upsert)))) = Some rp
     \<and> count rp = Some ((case count (empty_repeat
            \<lparr>every := Some 1000, offset := Some 1000\<rparr>) of
          None \<Rightarrow> 0 | Some c \<Rightarrow> c) + 1)"
    by (elim exE) (rule that)
  then show ?thesis
    using h f by (simp add: s world_def empty_repeat_def)
qed

subsection \<open>The interval form\<close>

text \<open>
  Claim C1, as stated, fails in its example: at \<open>now = 1000\<close> with \<open>every = 1000\<close> the slot is
  \<open>2000\<close> and the published offset is \<open>1000 - (2000 - 1000) = 0\<close>, not \<open>1000\<close>.
\<close>

theorem stored_offset_counterexample:
  "published_offsets (queued first_upsert) = [Some 0]
   \<and> published_offsets (queued first_upsert) \<noteq> [Some 1000]"
  by (simp add: first_upsert_commit published_commit)

text \<open>
  Claim C1, amended. On the first fire of an interval scheduler (a positive \<open>every\<close>, no
  previous fire and no offset, or either of them \<open>0\<close>), an upsert that passes the
  validation and the horizon checks at a clock after the epoch writes \<open>nextFireMs = now\<close>
  and publishes \<open>offset = every - (slot - now)\<close> into the repeat options of the job, where
  \<open>slot = floor(now / every) * every + every\<close> and \<open>now\<close> is the clock, advanced to a
  future start date; the offset lies in \<open>[0, every)\<close>. The upsert of scenario 1, at
  \<open>now = 1000\<close>, returns a job with id \<open>repeat:s1:1000\<close> and delay \<open>0\<close>, writes the score
  \<open>1000\<close>, and the stored offset is \<open>0\<close>.
\<close>

theorem first_fire:
  "(validate r = None \<and> \<not> limit_reached r \<and> \<not> endDate_passed (now_upsert env) r
      \<and> every r = Some e \<and> 0 < e \<and> prevMillis_or_0 opts = 0 \<and> \<not> truthy_num (offset r)
      \<and> 0 < now_upsert env \<longrightarrow>
      (let now = aligned_now (now_upsert env) r opts;
           slot = (now div e) * e + e
       in map scheduled_fire (queued (upsertJobScheduler env i r name data opts ov))
            = [Some now, Some now]
        \<and> published_offsets (queued (upsertJobScheduler env i r name data opts ov))
            = [Some (e - (slot - now))]
        \<and> 0 \<le> e - (slot - now) \<and> e - (slot - now) < e
        \<and> (\<not> truthy_num (startDate r) \<longrightarrow> now = now_upsert env)))
   \<and> map scheduled_fire (queued first_upsert) = [Some 1000, Some 1000]
   \<and> published_offsets (queued first_upsert) = [Some 0]
   \<and> (\<exists>j. outcome first_upsert = Inr (Some j) \<and> job_id j = ''repeat:s1:1000''
          \<and> jobId (job_opts j) = Some ''repeat:s1:1000'' \<and> delay (job_opts j) = Some 0)"
proof (intro conjI impI)
  assume a: "validate r = None \<and> \<not> limit_reached r \<and> \<not> endDate_passed (now_upsert env) r
      \<and> every r = Some e \<and> 0 < e \<and> prevMillis_or_0 opts = 0 \<and> \<not> truthy_num (offset r)
      \<and> 0 < now_upsert env"
  define now where "now = aligned_now (now_upsert env) r opts"
  have pos: "0 < now"
    using a aligned_now_ge_clock [of "now_upsert env" r opts] by (simp add: now_def)
  have nm: "next_millis (repeatStrategy env) now (prevMillis_or_0 opts) r name =
     Inr (Some now, Some (max 0 (e - ((now div e) * e + e - now))))"
    using a by (intro next_millis_first) auto
  have ph: "e - ((now div e) * e + e - now) = now mod e"
    using a by (intro first_offset_is_phase) simp
  have rng: "0 \<le> now mod e" "now mod e < e"
    using a by simp_all
  have u: "upsertJobScheduler env i r name data opts ov =
     commit env (immediately_warning r) i r name data opts ov now (Some (now mod e))"
    using a pos nm rng
    by (simp add: upsert_reaches_strategy now_def [symmetric] truthy_num_def ph)
  show "let now = aligned_now (now_upsert env) r opts;
           slot = (now div e) * e + e
       in map scheduled_fire (queued (upsertJobScheduler env i r name data opts ov))
            = [Some now, Some now]
        \<and> published_offsets (queued (upsertJobScheduler env i r name data opts ov))
            = [Some (e - (slot - now))]
        \<and> 0 \<le> e - (slot - now) \<and> e - (slot - now) < e
        \<and> (\<not> truthy_num (startDate r) \<longrightarrow> now = now_upsert env)"
    unfolding Let_def now_def [symmetric] u fires_commit published_commit
    using ph rng a by (auto simp add: now_def aligned_now_no_start)
next
  show "map scheduled_fire (queued first_upsert) = [Some 1000, Some 1000]"
    by (simp add: first_upsert_commit fires_commit)
next
  show "published_offsets (queued first_upsert) = [Some 0]"
    by (simp add: first_upsert_commit published_commit)
next
  have "outcome first_upsert = Inr (Some (built_job (world 1000 parser_invalid) ''s1''
       (empty_repeat\<lparr>every := Some 1000\<rparr>) ''j'' (Some ''{x:1}'') no_opts 1000 (Some 0)))"
    unfolding first_upsert_commit
    by (rule outcome_commit_committed) (simp add: world_def)
  then show "\<exists>j. outcome first_upsert = Inr (Some j) \<and> job_id j = ''repeat:s1:1000''
          \<and> jobId (job_opts j) = Some ''repeat:s1:1000'' \<and> delay (job_opts j) = Some 0"
    by (simp add: built_job_opts built_job_id s1000 world_def)
qed

theorem first_fire_witness:
  "validate (empty_repeat\<lparr>every := Some 1000\<rparr>) = None
   \<and> \<not> limit_reached (empty_repeat\<lparr>every := Some 1000\<rparr>)
   \<and> \<not> endDate_passed (now_upsert (world 1234 parser_invalid)) (empty_repeat\<lparr>every := Some 1000\<rparr>)
   \<and> every (empty_repeat\<lparr>every := Some 1000\<rparr>) = Some 1000 \<and> (0::int) < 1000
   \<and> prevMillis_or_0 no_opts = 0
   \<and> \<not> truthy_num (offset (empty_repeat\<lparr>every := Some 1000\<rparr>))
   \<and> 0 < now_upsert (world 1234 parser_invalid)
   \<and> map scheduled_fire (queued (upsertJobScheduler (world 1234 parser_invalid) ''s1''
         (empty_repeat\<lparr>every := Some 1000\<rparr>) ''j'' (Some ''{x:1}'') no_opts True))
       = [Some 1234, Some 1234]
   \<and> published_offsets (queued (upsertJobScheduler (world 1234 parser_invalid) ''s1''
         (empty_repeat\<lparr>every := Some 1000\<rparr>) ''j'' (Some ''{x:1}'') no_opts True))
       = [Some 234]"
  using first_fire [where r = "empty_repeat\<lparr>every := Some 1000\<rparr>"
      and env = "world 1234 parser_invalid" and e = 1000 and opts = no_opts
      and i = "''s1''" and name = "''j''" and data = "Some ''{x:1}''" and ov = True]
  by (simp add: option_defs phase_defs truthy_defs Let_def)

text \<open>
  Claim C6, as stated, fails for an offset that is present and \<open>0\<close>: without a previous
  fire the source takes the first-fire branch (\<open>prevMillis || offset\<close> is falsy), so at
  \<open>now = 1500\<close> with \<open>every = 1000\<close> the next fire is \<open>1500\<close>, not \<open>slot + offset = 2000\<close>.
\<close>

theorem offset_zero_counterexample:
  "offset (empty_repeat\<lparr>every := Some 1000, offset := Some 0\<rparr>) = Some 0
   \<and> map scheduled_fire (queued offset_zero_upsert) = [Some 1500, Some 1500]
   \<and> (1500 div 1000) * 1000 + 1000 + 0 = (2000::int)"
  by (simp add: offset_zero_upsert_commit fires_commit empty_repeat_def)

text \<open>
  Claim C6, amended. On a subsequent fire of an interval scheduler, that is when the
  previous fire is not \<open>0\<close> or the options carry an offset other than \<open>0\<close>, an upsert that
  passes the validation and the horizon checks at a clock after the epoch writes
  \<open>nextFireMs = slot + offset\<close>, or \<open>now\<close> when that lies before \<open>now\<close>, and leaves the
  offset as it is. The second upsert of scenario 2, at \<open>now = 1500\<close>, returns a job with id
  \<open>repeat:s1:3000\<close> and delay \<open>1500\<close>, and writes the score \<open>3000\<close>.
\<close>

theorem subsequent_fire:
  "(validate r = None \<and> \<not> limit_reached r \<and> \<not> endDate_passed (now_upsert env) r
      \<and> every r = Some e \<and> e \<noteq> 0
      \<and> (prevMillis_or_0 opts \<noteq> 0 \<or> truthy_num (offset r))
      \<and> 0 < now_upsert env \<longrightarrow>
      (let now = aligned_now (now_upsert env) r opts;
           slot = (now div e) * e + e;
           off = (case offset r of None \<Rightarrow> 0 | Some x \<Rightarrow> x);
           n = (if slot + off < now then now else slot + off)
       in map scheduled_fire (queued (upsertJobScheduler env i r name data opts ov))
            = [Some n, Some n]
        \<and> published_offsets (queued (upsertJobScheduler env i r name data opts ov))
            = [offset r]))
   \<and> map scheduled_fire (queued second_upsert) = [Some 3000, Some 3000]
   \<and> (\<exists>j. outcome second_upsert = Inr (Some j) \<and> job_id j = ''repeat:s1:3000''
          \<and> jobId (job_opts j) = Some ''repeat:s1:3000''
          \<and> delay (job_opts j) = Some 1500)"
proof (intro conjI impI)
  assume a: "validate r = None \<and> \<not> limit_reached r \<and> \<not> endDate_passed (now_upsert env) r
      \<and> every r = Some e \<and> e \<noteq> 0
      \<and> (prevMillis_or_0 opts \<noteq> 0 \<or> truthy_num (offset r))
      \<and> 0 < now_upsert env"
  define now where "now = aligned_now (now_upsert env) r opts"
  define n where
    "n = max now ((now div e) * e + e + (case offset r of None \<Rightarrow> 0 | Some x \<Rightarrow> x))"
  have pos: "0 < now"
    using a aligned_now_ge_clock [of "now_upsert env" r opts] by (simp add: now_def)
  then have npos: "n \<noteq> 0" by (simp add: n_def max_def)
  have nm: "next_millis (repeatStrategy env) now (prevMillis_or_0 opts) r name =
     Inr (Some n, offset r)"
    unfolding n_def using a by (intro next_millis_subsequent) auto
  have u: "upsertJobScheduler env i r name data opts ov =
     commit env (immediately_warning r) i r name data opts ov n (offset r)"
    using a npos nm
    by (simp add: upsert_reaches_strategy now_def [symmetric] truthy_num_def)
  show "let now = aligned_now (now_upsert env) r opts;
           slot = (now div e) * e + e;
           off = (case offset r of None \<Rightarrow> 0 | Some x \<Rightarrow> x);
           n = (if slot + off < now then now else slot + off)
       in map scheduled_fire (queued (upsertJobScheduler env i r name data opts ov))
            = [Some n, Some n]
        \<and> published_offsets (queued (upsertJobScheduler env i r name data opts ov))
            = [offset r]"
    unfolding Let_def now_def [symmetric] u fires_commit published_commit
    by (simp add: n_def max_def)
next
  show "map scheduled_fire (queued second_upsert) = [Some 3000, Some 3000]"
    by (simp add: second_upsert_commit fires_commit)
next
  have "outcome second_upsert = Inr (Some (built_job (world 1500 parser_invalid) ''s1''
       (empty_repeat\<lparr>every := Some 1000, offset := Some 1000\<rparr>) ''j'' (Some ''{x:1}'')
       (no_opts\<lparr>prevMillis := Some 1000\<rparr>) 3000 (Some 1000)))"
    unfolding second_upsert_commit
    by (rule outcome_commit_committed) (simp add: world_def)
  then show "\<exists>j. outcome second_upsert = Inr (Some j) \<and> job_id j = ''repeat:s1:3000''
          \<and> jobId (job_opts j) = Some ''repeat:s1:3000''
          \<and> delay (job_opts j) = Some 1500"
    by (simp add: built_job_opts built_job_id s3000 world_def)
qed

theorem subsequent_fire_witness:
  "validate (empty_repeat\<lparr>every := Some 1000, offset := Some 250\<rparr>) = None
   \<and> \<not> limit_reached (empty_repeat\<lparr>every := Some 1000, offset := Some 250\<rparr>)
   \<and> \<not> endDate_passed (now_upsert (world 4321 parser_invalid))
         (empty_repeat\<lparr>every := Some 1000, offset := Some 250\<rparr>)
   \<and> every (empty_repeat\<lparr>every := Some 1000, offset := Some 250\<rparr>) = Some 1000
   \<and> (1000::int) \<noteq> 0
   \<and> truthy_num (offset (empty_repeat\<lparr>every := Some 1000, offset := Some 250\<rparr>))
   \<and> 0 < now_upsert (world 4321 parser_invalid)
   \<and> map scheduled_fire (queued (upsertJobScheduler (world 4321 parser_invalid) ''s1''
         (empty_repeat\<lparr>every := Some 1000, offset := Some 250\<rparr>) ''j'' (Some ''{x:1}'')
         no_opts False))
       = [Some 5250, Some 5250]
   \<and> published_offsets (queued (upsertJobScheduler (world 4321 parser_invalid) ''s1''
         (empty_repeat\<lparr>every := Some 1000, offset := Some 250\<rparr>) ''j'' (Some ''{x:1}'')
         no_opts False))
       = [Some 250]"
  using subsequent_fire [where r = "empty_repeat\<lparr>every := Some 1000, offset := Some 250\<rparr>"
      and env = "world 4321 parser_invalid" and e = 1000 and opts = no_opts
      and i = "''s1''" and name = "''j''" and data = "Some ''{x:1}''" and ov = False]
  by (simp add: option_defs phase_defs truthy_defs Let_def)

subsection \<open>The default strategy\<close>

text \<open>
  Claim C3, as stated, fails: a pattern that does not parse makes \<open>parseExpression\<close>
  throw outside the \<open>try\<close> block, and the exception leaves \<open>upsertJobScheduler\<close>.
\<close>

theorem parse_failure_counterexample:
  "outcome invalid_pattern_upsert = Inl (Error ''Invalid cron expression'')"
  unfolding invalid_pattern_upsert_def
  by (simp add: upsertJobScheduler_def option_defs phase_defs truthy_defs Let_def)

text \<open>
  Claim C3, amended. When the pattern parses and \<open>next()\<close> throws (and \<open>immediately\<close> is
  not set), the default strategy returns \<open>undefined\<close> and the upsert returns empty,
  silently: nothing is queued and nothing is executed, so the store keeps the definition.
  When the pattern does not parse, the strategy throws what the parser throws, and so
  does the upsert, before the \<open>multi\<close> object exists.
\<close>

theorem cron_failures:
  "(parse (pattern r) r millis = Inr (Inl e) \<and> \<not> truthy_bool (immediately r) \<longrightarrow>
      defaultRepeatStrategy parse clock millis r = Inr None)
   \<and> (parse (pattern r) r millis = Inl e \<longrightarrow>
      defaultRepeatStrategy parse clock millis r = Inl e)
   \<and> (validate r = None \<and> \<not> limit_reached r \<and> \<not> endDate_passed (now_upsert env) r
       \<and> truthy_str (pattern r) \<and> settings_repeatStrategy env = None
       \<and> \<not> truthy_bool (immediately r)
       \<and> parseExpression env (pattern r) r (aligned_now (now_upsert env) r opts) = Inr (Inl e)
      \<longrightarrow> upsertJobScheduler env i r name data opts ov =
        \<lparr>outcome = Inr None, warned = [], multi_created = True, queued = [],
         executed = False\<rparr>)
   \<and> (validate r = None \<and> \<not> limit_reached r \<and> \<not> endDate_passed (now_upsert env) r
       \<and> truthy_str (pattern r) \<and> settings_repeatStrategy env = None
       \<and> parseExpression env (pattern r) r (aligned_now (now_upsert env) r opts) = Inl e
      \<longrightarrow> upsertJobScheduler env i r name data opts ov =
        \<lparr>outcome = Inl e, warned = [], multi_created = False, queued = [],
         executed = False\<rparr>)"
proof (intro conjI impI)
  assume "parse (pattern r) r millis = Inr (Inl e) \<and> \<not> truthy_bool (immediately r)"
  then show "defaultRepeatStrategy parse clock millis r = Inr None"
    by (simp add: defaultRepeatStrategy_def)
next
  assume "parse (pattern r) r millis = Inl e"
  then show "defaultRepeatStrategy parse clock millis r = Inl e"
    by (simp add: defaultRepeatStrategy_def)
next
  assume a: "validate r = None \<and> \<not> limit_reached r \<and> \<not> endDate_passed (now_upsert env) r
       \<and> truthy_str (pattern r) \<and> settings_repeatStrategy env = None
       \<and> \<not> truthy_bool (immediately r)
       \<and> parseExpression env (pattern r) r (aligned_now (now_upsert env) r opts) = Inr (Inl e)"
  then have "repeatStrategy env (aligned_now (now_upsert env) r opts) r name = Inr None"
    by (simp add: default_strategy defaultRepeatStrategy_def)
  with a show "upsertJobScheduler env i r name data opts ov =
        \<lparr>outcome = Inr None, warned = [], multi_created = True, queued = [],
         executed = False\<rparr>"
    by (simp add: upsert_pattern truthy_num_def)
next
  assume a: "validate r = None \<and> \<not> limit_reached r \<and> \<not> endDate_passed (now_upsert env) r
       \<and> truthy_str (pattern r) \<and> settings_repeatStrategy env = None
       \<and> parseExpression env (pattern r) r (aligned_now (now_upsert env) r opts) = Inl e"
  then have "repeatStrategy env (aligned_now (now_upsert env) r opts) r name = Inl e"
    by (simp add: default_strategy defaultRepeatStrategy_def)
  with a show "upsertJobScheduler env i r name data opts ov =
        \<lparr>outcome = Inl e, warned = [], multi_created = False, queued = [],
         executed = False\<rparr>"
    by (simp add: upsert_pattern)
qed

theorem cron_failures_witness:
  "parser_exhausted (pattern pattern_opts) pattern_opts 1000
     = Inr (Inl (Error ''Out of the timespan range''))
   \<and> \<not> truthy_bool (immediately pattern_opts)
   \<and> defaultRepeatStrategy parser_exhausted 1000 1000 pattern_opts = Inr None
   \<and> parser_invalid (pattern pattern_opts) pattern_opts 1000
     = Inl (Error ''Invalid cron expression'')
   \<and> defaultRepeatStrategy parser_invalid 1000 1000 pattern_opts
     = Inl (Error ''Invalid cron expression'')
   \<and> validate pattern_opts = None \<and> \<not> limit_reached pattern_opts
   \<and> \<not> endDate_passed (now_upsert (world 1000 parser_exhausted)) pattern_opts
   \<and> truthy_str (pattern pattern_opts)
   \<and> settings_repeatStrategy (world 1000 parser_exhausted) = None
   \<and> exhausted_upsert =
        \<lparr>outcome = Inr None, warned = [], multi_created = True, queued = [],
         executed = False\<rparr>
   \<and> upsertJobScheduler (world 1000 parser_invalid) ''s2'' pattern_opts ''j''
        (Some ''{x:1}'') no_opts True =
        \<lparr>outcome = Inl (Error ''Invalid cron expression''), warned = [],
         multi_created = False, queued = [], executed = False\<rparr>"
  unfolding exhausted_upsert_def
  using
    cron_failures [where parse = parser_exhausted and r = pattern_opts and millis = 1000
      and clock = 1000 and e = "Error ''Out of the timespan range''"
      and env = "world 1000 parser_exhausted" and opts = no_opts and i = "''s2''"
      and name = "''j''" and data = "Some ''{x:1}''" and ov = True]
    cron_failures [where parse = parser_invalid and r = pattern_opts and millis = 1000
      and clock = 1000 and e = "Error ''Invalid cron expression''"
      and env = "world 1000 parser_invalid" and opts = no_opts and i = "''s2''"
      and name = "''j''" and data = "Some ''{x:1}''" and ov = True]
  by (simp add: option_defs validate_def limit_reached_def endDate_passed_def truthy_defs)

text \<open>
  Claim C4, as stated, fails: with \<open>immediately\<close> set the default strategy returns the
  clock it reads itself, here \<open>1000\<close>, and not the \<open>millis\<close> it is given, here \<open>5000\<close>.
\<close>

theorem strategy_ignores_millis_counterexample:
  "defaultRepeatStrategy (parser_next 60000) 1000 5000 immediately_opts = Inr (Some 1000)
   \<and> defaultRepeatStrategy (parser_next 60000) 1000 5000 immediately_opts \<noteq> Inr (Some 5000)"
  by (simp add: defaultRepeatStrategy_def option_defs truthy_defs)

text \<open>
  Claim C4, amended. For a pattern that parses and with \<open>immediately\<close> set, the default
  strategy returns the wall clock at the moment it runs, whatever \<open>millis\<close> it is given;
  an upsert of such a scheduler that reaches the strategy schedules the next fire at that
  clock reading, so an upsert during which the clock reads \<open>T\<close> yields \<open>nextFireMs = T\<close>.
\<close>

theorem immediately_fires_at_clock:
  "(truthy_bool (immediately r) \<and> parse (pattern r) r millis = Inr interval \<longrightarrow>
      defaultRepeatStrategy parse clock millis r = Inr (Some clock))
   \<and> (validate r = None \<and> \<not> limit_reached r \<and> \<not> endDate_passed (now_upsert env) r
       \<and> truthy_str (pattern r) \<and> settings_repeatStrategy env = None
       \<and> truthy_bool (immediately r)
       \<and> parseExpression env (pattern r) r (aligned_now (now_upsert env) r opts) = Inr interval
       \<and> now_strategy env \<noteq> 0
      \<longrightarrow> map scheduled_fire (queued (upsertJobScheduler env i r name data opts ov))
            = [Some (now_strategy env), Some (now_strategy env)])
   \<and> map scheduled_fire (queued immediately_upsert) = [Some 1000, Some 1000]"
proof (intro conjI impI)
  assume "truthy_bool (immediately r) \<and> parse (pattern r) r millis = Inr interval"
  then show "defaultRepeatStrategy parse clock millis r = Inr (Some clock)"
    by (simp add: defaultRepeatStrategy_def)
next
  assume "validate r = None \<and> \<not> limit_reached r \<and> \<not> endDate_passed (now_upsert env) r
       \<and> truthy_str (pattern r) \<and> settings_repeatStrategy env = None
       \<and> truthy_bool (immediately r)
       \<and> parseExpression env (pattern r) r (aligned_now (now_upsert env) r opts) = Inr interval
       \<and> now_strategy env \<noteq> 0"
  then show "map scheduled_fire (queued (upsertJobScheduler env i r name data opts ov))
            = [Some (now_strategy env), Some (now_strategy env)]"
    by (simp add: upsert_pattern default_strategy defaultRepeatStrategy_def truthy_num_def
        fires_commit)
next
  show "map scheduled_fire (queued immediately_upsert) = [Some 1000, Some 1000]"
    unfolding immediately_upsert_def
    by (simp add: upsert_pattern default_strategy defaultRepeatStrategy_def fires_commit
        option_defs validate_def limit_reached_def endDate_passed_def truthy_defs)
qed

theorem immediately_fires_at_clock_witness:
  "truthy_bool (immediately immediately_opts)
   \<and> parser_next 60000 (pattern immediately_opts) immediately_opts 5000 = Inr (Inr 60000)
   \<and> defaultRepeatStrategy (parser_next 60000) 1000 5000 immediately_opts = Inr (Some 1000)
   \<and> validate immediately_opts = None \<and> \<not> limit_reached immediately_opts
   \<and> \<not> endDate_passed (now_upsert (world 1000 (parser_next 60000))) immediately_opts
   \<and> truthy_str (pattern immediately_opts)
   \<and> settings_repeatStrategy (world 1000 (parser_next 60000)) = None
   \<and> now_strategy (world 1000 (parser_next 60000)) \<noteq> 0
   \<and> map scheduled_fire (queued ahead_upsert) = [Some 1000, Some 1000]"
  unfolding ahead_upsert_def
  using immediately_fires_at_clock [where r = immediately_opts and parse = "parser_next 60000"
      and millis = 5000 and interval = "Inr 60000" and clock = 1000
      and env = "world 1000 (parser_next 60000)" and opts = "no_opts\<lparr>prevMillis := Some 5000\<rparr>"
      and i = "''s4''" and name = "''j''" and data = "Some ''{x:1}''" and ov = False]
  by (simp add: option_defs validate_def limit_reached_def endDate_passed_def truthy_defs)

subsection \<open>The bound on the next fire\<close>

text \<open>
  Claim C5, as stated, fails in the pattern form with \<open>immediately\<close>: for a template whose
  previous fire, \<open>5000\<close>, is ahead of the clock, \<open>1000\<close>, the next fire is written at \<open>1000\<close>.
\<close>

theorem fire_before_prevMillis_counterexample:
  "prevMillis_or_0 (no_opts\<lparr>prevMillis := Some 5000\<rparr>) = 5000
   \<and> map scheduled_fire (queued ahead_upsert) = [Some 1000, Some 1000]
   \<and> (1000::int) < max 1000 5000"
  unfolding ahead_upsert_def
  by (simp add: upsert_pattern default_strategy defaultRepeatStrategy_def fires_commit
      option_defs validate_def limit_reached_def endDate_passed_def prevMillis_or_0_def
      truthy_defs)

text \<open>
  Claim C5, amended. For every upsert that writes, at a clock not before the epoch: in
  the interval form the next fire is at or after the clock, the previous fire and the
  start date. In the pattern form the next fire is what the strategy returns for the
  adjusted \<open>now\<close>, which is at or after the clock, the previous fire and the start date;
  the default strategy returns the next occurrence the cron parser computes from that
  adjusted \<open>now\<close>, or, with \<open>immediately\<close>, the clock it reads itself, which is at or after
  the clock read at entry when the clock does not run backwards, but is not raised to the
  previous fire.
\<close>

theorem next_fire_bounds:
  "queued (upsertJobScheduler env i r name data opts ov) \<noteq> [] \<and> 0 \<le> now_upsert env \<longrightarrow>
     (\<exists>n. map scheduled_fire (queued (upsertJobScheduler env i r name data opts ov))
             = [Some n, Some n]
        \<and> now_upsert env \<le> aligned_now (now_upsert env) r opts
        \<and> prevMillis_or_0 opts \<le> aligned_now (now_upsert env) r opts
        \<and> (\<forall>s. startDate r = Some s \<longrightarrow> s \<le> aligned_now (now_upsert env) r opts)
        \<and> (truthy_num (every r) \<longrightarrow>
              now_upsert env \<le> n \<and> prevMillis_or_0 opts \<le> n
              \<and> (\<forall>s. startDate r = Some s \<longrightarrow> s \<le> n))
        \<and> (\<not> truthy_num (every r) \<longrightarrow>
              repeatStrategy env (aligned_now (now_upsert env) r opts) r name = Inr (Some n))
        \<and> (\<not> truthy_num (every r) \<and> settings_repeatStrategy env = None
              \<and> \<not> truthy_bool (immediately r) \<longrightarrow>
              parseExpression env (pattern r) r (aligned_now (now_upsert env) r opts)
                = Inr (Inr n))
        \<and> (\<not> truthy_num (every r) \<and> settings_repeatStrategy env = None
              \<and> truthy_bool (immediately r) \<longrightarrow>
              n = now_strategy env
              \<and> (now_upsert env \<le> now_strategy env \<longrightarrow>
                   now_upsert env \<le> n \<and> (\<forall>s. startDate r = Some s \<longrightarrow> s \<le> n))))"
proof (intro impI)
  assume a: "queued (upsertJobScheduler env i r name data opts ov) \<noteq> [] \<and> 0 \<le> now_upsert env"
  define now where "now = aligned_now (now_upsert env) r opts"
  from a upsert_written [of env i r name data opts ov] obtain n off where
    u: "upsertJobScheduler env i r name data opts ov =
          commit env (immediately_warning r) i r name data opts ov n off"
    and nm: "next_millis (repeatStrategy env) now (prevMillis_or_0 opts) r name
          = Inr (Some n, off)"
    and v: "validate r = None"
    unfolding now_def by blast
  have f: "map scheduled_fire (queued (upsertJobScheduler env i r name data opts ov))
             = [Some n, Some n]"
    by (simp add: u fires_commit)
  have b1: "now_upsert env \<le> now" and b2: "prevMillis_or_0 opts \<le> now"
    by (simp_all add: now_def aligned_now_ge_clock aligned_now_ge_prev)
  have b3: "\<forall>s. startDate r = Some s \<longrightarrow> s \<le> now"
    using a by (simp add: now_def aligned_now_ge_start)
  have every: "truthy_num (every r) \<longrightarrow> now \<le> n"
    using next_millis_every [of r "repeatStrategy env" now "prevMillis_or_0 opts" name] nm
    by auto
  have strat: "\<not> truthy_num (every r) \<longrightarrow> repeatStrategy env now r name = Inr (Some n)"
  proof
    assume e: "\<not> truthy_num (every r)"
    then have p: "truthy_str (pattern r)"
      using validate_None_one [OF v] by simp
    show "repeatStrategy env now r name = Inr (Some n)"
      using nm unfolding next_millis_pattern [OF e p]
      by (simp split: sum.splits)
  qed
  have parsed: "\<not> truthy_num (every r) \<and> settings_repeatStrategy env = None
              \<and> \<not> truthy_bool (immediately r) \<longrightarrow>
              parseExpression env (pattern r) r now = Inr (Inr n)"
    using strat
    by (auto simp add: default_strategy defaultRepeatStrategy_def split: sum.splits)
  have imm: "\<not> truthy_num (every r) \<and> settings_repeatStrategy env = None
              \<and> truthy_bool (immediately r) \<longrightarrow> n = now_strategy env"
    using strat
    by (auto simp add: default_strategy defaultRepeatStrategy_def split: sum.splits)
  have start0: "truthy_bool (immediately r) \<longrightarrow> (\<forall>s. startDate r = Some s \<longrightarrow> s = 0)"
    using validate_None_immediately [OF v] by (auto simp add: truthy_num_def)
  show "\<exists>n. map scheduled_fire (queued (upsertJobScheduler env i r name data opts ov))
             = [Some n, Some n]
        \<and> now_upsert env \<le> aligned_now (now_upsert env) r opts
        \<and> prevMillis_or_0 opts \<le> aligned_now (now_upsert env) r opts
        \<and> (\<forall>s. startDate r = Some s \<longrightarrow> s \<le> aligned_now (now_upsert env) r opts)
        \<and> (truthy_num (every r) \<longrightarrow>
              now_upsert env \<le> n \<and> prevMillis_or_0 opts \<le> n
              \<and> (\<forall>s. startDate r = Some s \<longrightarrow> s \<le> n))
        \<and> (\<not> truthy_num (every r) \<longrightarrow>
              repeatStrategy env (aligned_now (now_upsert env) r opts) r name = Inr (Some n))
        \<and> (\<not> truthy_num (every r) \<and> settings_repeatStrategy env = None
              \<and> \<not> truthy_bool (immediately r) \<longrightarrow>
              parseExpression env (pattern r) r (aligned_now (now_upsert env) r opts)
                = Inr (Inr n))
        \<and> (\<not> truthy_num (every r) \<and> settings_repeatStrategy env = None
              \<and> truthy_bool (immediately r) \<longrightarrow>
              n = now_strategy env
              \<and> (now_upsert env \<le> now_strategy env \<longrightarrow>
                   now_upsert env \<le> n \<and> (\<forall>s. startDate r = Some s \<longrightarrow> s \<le> n)))"
    unfolding now_def [symmetric]
    using f b1 b2 b3 every strat parsed imm start0 a
    by (intro exI [of _ n]) (auto intro: order_trans)
qed

theorem next_fire_bounds_witness:
  "queued second_upsert \<noteq> [] \<and> 0 \<le> now_upsert (world 1500 parser_invalid)
   \<and> truthy_num (every (empty_repeat\<lparr>every := Some 1000, offset := Some 1000\<rparr>))
   \<and> map scheduled_fire (queued second_upsert) = [Some 3000, Some 3000]
   \<and> now_upsert (world 1500 parser_invalid) \<le> 3000
   \<and> prevMillis_or_0 (no_opts\<lparr>prevMillis := Some 1000\<rparr>) \<le> 3000
   \<and> queued pattern_upsert \<noteq> [] \<and> 0 \<le> now_upsert (world 1000 (parser_next 60000))
   \<and> \<not> truthy_num (every pattern_opts) \<and> \<not> truthy_bool (immediately pattern_opts)
   \<and> settings_repeatStrategy (world 1000 (parser_next 60000)) = None
   \<and> map scheduled_fire (queued pattern_upsert) = [Some 60000, Some 60000]
   \<and> parseExpression (world 1000 (parser_next 60000)) (pattern pattern_opts) pattern_opts
        (aligned_now (now_upsert (world 1000 (parser_next 60000))) pattern_opts no_opts)
      = Inr (Inr 60000)
   \<and> queued immediately_upsert \<noteq> [] \<and> \<not> truthy_num (every immediately_opts)
   \<and> truthy_bool (immediately immediately_opts)
   \<and> map scheduled_fire (queued immediately_upsert) = [Some 1000, Some 1000]
   \<and> now_strategy (world 1000 (parser_next 60000)) = 1000"
proof -
  have f2: "map scheduled_fire (queued second_upsert) = [Some 3000, Some 3000]"
    by (simp add: second_upsert_commit fires_commit)
  have q2: "queued second_upsert \<noteq> []"
    using f2 by auto
  have q3: "queued pattern_upsert \<noteq> []"
    using pattern_upsert_fires by auto
  have q5: "queued immediately_upsert \<noteq> []"
    using immediately_upsert_fires by auto
  have c: "0 \<le> now_upsert (world 1500 parser_invalid)"
    "0 \<le> now_upsert (world 1000 (parser_next 60000))"
    by (simp_all add: world_def)
  note i2 = next_fire_bounds [where env = "world 1500 parser_invalid" and i = "''s1''"
      and r = "empty_repeat\<lparr>every := Some 1000, offset := Some 1000\<rparr>" and name = "''j''"
      and data = "Some ''{x:1}''" and opts = "no_opts\<lparr>prevMillis := Some 1000\<rparr>"
      and ov = False, folded second_upsert_def, rule_format, OF conjI [OF q2 c(1)]]
  note i3 = next_fire_bounds [where env = "world 1000 (parser_next 60000)" and i = "''s2''"
      and r = pattern_opts and name = "''j''" and data = "Some ''{x:1}''" and opts = no_opts
      and ov = True, folded pattern_upsert_def, rule_format, OF conjI [OF q3 c(2)]]
  note i5 = next_fire_bounds [where env = "world 1000 (parser_next 60000)" and i = "''s4''"
      and r = immediately_opts and name = "''j''" and data = "Some ''{x:1}''"
      and opts = no_opts and ov = True, folded immediately_upsert_def, rule_format,
      OF conjI [OF q5 c(2)]]
  have t: "truthy_num (every (empty_repeat\<lparr>every := Some 1000, offset := Some 1000\<rparr>))"
    "\<not> truthy_num (every pattern_opts)" "\<not> truthy_bool (immediately pattern_opts)"
    "\<not> truthy_num (every immediately_opts)" "truthy_bool (immediately immediately_opts)"
    "settings_repeatStrategy (world 1000 (parser_next 60000)) = None"
    by (simp_all add: option_defs truthy_defs)
  from i2 t f2 have "now_upsert (world 1500 parser_invalid) \<le> 3000
     \<and> prevMillis_or_0 (no_opts\<lparr>prevMillis := Some 1000\<rparr>) \<le> 3000"
    by auto
  moreover from i3 t pattern_upsert_fires
  have "parseExpression (world 1000 (parser_next 60000)) (pattern pattern_opts) pattern_opts
        (aligned_now (now_upsert (world 1000 (parser_next 60000))) pattern_opts no_opts)
      = Inr (Inr 60000)"
    by auto
  moreover from i5 t immediately_upsert_fires
  have "now_strategy (world 1000 (parser_next 60000)) = 1000"
    by auto
  ultimately show ?thesis
    using q2 q3 q5 c t f2 pattern_upsert_fires immediately_upsert_fires by simp
qed

subsection \<open>A next fire at the epoch\<close>

text \<open>
  Claim C10, as stated, fails in one point: line 116 creates the \<open>multi\<close> object before
  line 117 tests \<open>nextMillis\<close>, so the transaction is opened also when the strategy answers
  \<open>0\<close>.
\<close>

theorem multi_created_counterexample:
  "multi_created zero_upsert"
  unfolding zero_upsert_def
  by (simp add: upsertJobScheduler_def option_defs phase_defs truthy_defs Let_def)

text \<open>
  Claim C10, amended. A next fire time \<open>0\<close> is treated exactly like \<open>undefined\<close>: the
  \<open>multi\<close> object has been created, but nothing is queued on it and it is never executed,
  so nothing is written to the store, and the call returns empty. A scheduler whose
  strategy answers \<open>0\<close> behaves on every input like one whose strategy answers
  \<open>undefined\<close>.
\<close>

theorem falsy_next_fire:
  "upsertJobScheduler (env\<lparr>settings_repeatStrategy := Some (constant_strategy (Some 0))\<rparr>)
       i r name data opts ov
     = upsertJobScheduler (env\<lparr>settings_repeatStrategy := Some (constant_strategy None)\<rparr>)
       i r name data opts ov
   \<and> (validate r = None \<and> \<not> limit_reached r \<and> \<not> endDate_passed (now_upsert env) r
       \<and> truthy_str (pattern r)
       \<and> repeatStrategy env (aligned_now (now_upsert env) r opts) r name
            \<in> {Inr (Some 0), Inr None}
      \<longrightarrow> upsertJobScheduler env i r name data opts ov =
        \<lparr>outcome = Inr None, warned = [], multi_created = True, queued = [],
         executed = False\<rparr>)
   \<and> (validate r = None \<and> \<not> limit_reached r \<and> \<not> endDate_passed (now_upsert env) r
       \<and> next_millis (repeatStrategy env) (aligned_now (now_upsert env) r opts)
            (prevMillis_or_0 opts) r name \<in> {Inr (Some 0, off), Inr (None, off)}
      \<longrightarrow> upsertJobScheduler env i r name data opts ov =
        \<lparr>outcome = Inr None, warned = immediately_warning r, multi_created = True,
         queued = [], executed = False\<rparr>)"
proof (intro conjI impI)
  show "upsertJobScheduler (env\<lparr>settings_repeatStrategy := Some (constant_strategy (Some 0))\<rparr>)
       i r name data opts ov
     = upsertJobScheduler (env\<lparr>settings_repeatStrategy := Some (constant_strategy None)\<rparr>)
       i r name data opts ov"
    by (rule upsert_constant_falsy) simp
next
  assume "validate r = None \<and> \<not> limit_reached r \<and> \<not> endDate_passed (now_upsert env) r
       \<and> truthy_str (pattern r)
       \<and> repeatStrategy env (aligned_now (now_upsert env) r opts) r name
            \<in> {Inr (Some 0), Inr None}"
  then show "upsertJobScheduler env i r name data opts ov =
        \<lparr>outcome = Inr None, warned = [], multi_created = True, queued = [],
         executed = False\<rparr>"
    by (auto simp add: upsert_pattern truthy_num_def)
next
  assume "validate r = None \<and> \<not> limit_reached r \<and> \<not> endDate_passed (now_upsert env) r
       \<and> next_millis (repeatStrategy env) (aligned_now (now_upsert env) r opts)
            (prevMillis_or_0 opts) r name \<in> {Inr (Some 0, off), Inr (None, off)}"
  then show "upsertJobScheduler env i r name data opts ov =
        \<lparr>outcome = Inr None, warned = immediately_warning r, multi_created = True,
         queued = [], executed = False\<rparr>"
    by (auto simp add: upsert_reaches_strategy truthy_num_def)
qed

theorem falsy_next_fire_witness:
  "validate pattern_opts = None \<and> \<not> limit_reached pattern_opts
   \<and> \<not> endDate_passed (now_upsert ((world 1000 parser_invalid)
         \<lparr>settings_repeatStrategy := Some (constant_strategy (Some 0))\<rparr>)) pattern_opts
   \<and> truthy_str (pattern pattern_opts)
   \<and> repeatStrategy ((world 1000 parser_invalid)
         \<lparr>settings_repeatStrategy := Some (constant_strategy (Some 0))\<rparr>)
        (aligned_now (now_upsert ((world 1000 parser_invalid)
         \<lparr>settings_repeatStrategy := Some (constant_strategy (Some 0))\<rparr>)) pattern_opts no_opts)
        pattern_opts ''j'' = Inr (Some 0)
   \<and> zero_upsert =
        \<lparr>outcome = Inr None, warned = [], multi_created = True, queued = [],
         executed = False\<rparr>"
  unfolding zero_upsert_def
  using falsy_next_fire [where r = pattern_opts and opts = no_opts and name = "''j''"
      and env = "(world 1000 parser_invalid)
         \<lparr>settings_repeatStrategy := Some (constant_strategy (Some 0))\<rparr>"
      and i = "''s2''" and data = "Some ''{x:1}''" and ov = True and off = None,
      THEN conjunct2, THEN conjunct1]
  by (simp add: option_defs validate_def limit_reached_def endDate_passed_def truthy_defs
      repeatStrategy_def)

end
